theory Spec2Isabelle
  imports Main "HOL-Library.AList" "HOL-Library.Word"
begin

section \<open>Chunked video upload: the service of \<open>core/services.py\<close>\<close>

text \<open>
  The development embeds \<open>VideoService\<close> and \<open>Storage\<close> of \<open>core/services.py\<close> and the
  upload form of \<open>core/form.py\<close> with the view of \<open>core/admin.py\<close> that applies it.
  The database and the file system are explicit state; every exception is a value of
  type \<open>error\<close>; every operation returns its result together with the state it leaves.
\<close>

subsection \<open>Errors\<close>

text \<open>
  The three exception classes of \<open>services.py\<close> carry their message. The others are the
  exceptions of Django and of the Python library that the code lets escape or catches.
\<close>

datatype error =
    VideoDoesNotExist
  | RelatedObjectDoesNotExist
  | VideoMediaInvalidStatusException string
  | VideoMediaNotExistsException string
  | VideoChunkUploadException string
  | IntegrityError
  | TransactionManagementError
  | FileNotFoundError
  | FileExistsError
  | NotADirectoryError
  | IsADirectoryError
  | ShutilError

subsection \<open>Database rows\<close>

text \<open>
  Modelled from the spec: \<open>core/models.py\<close> is not among the sources. The spec gives the
  status enumeration four values; three of them are named by \<open>services.py\<close>
  (\<open>UPLOADED_STARTED\<close>, which the spec calls \<open>UPLOAD_IN_PROGRESS\<close>, \<open>PROCESS_STARTED\<close>
  and \<open>PROCESS_FINISHED\<close>), the fourth is the spec's \<open>UPLOAD_STARTED\<close>. A media record has
  the video it belongs to (unique), a status and a storage path; of a video only the
  published flag is used by the service.
\<close>

datatype Status = UPLOAD_STARTED | UPLOADED_STARTED | PROCESS_STARTED | PROCESS_FINISHED

record Video =
  is_published :: bool

record VideoMedia =
  video_id :: int
  status :: Status
  video_path :: string

subsection \<open>File system\<close>

text \<open>
  A node is a regular file with its bytes or a directory, whose entries are an
  association list from names to nodes. The file system maps the path strings the
  service names (\<open>/tmp/videos/42\<close>, \<open>/media/uploads/42\<close>, a stored \<open>video_path\<close>) to the
  node found there; different strings are different places. A path is such a string or
  the \<open>path.join\<close> of a path and a name. Symbolic links, permissions and the ancestors of
  the named directories are not modelled.
\<close>

type_synonym bytes = "8 word list"

datatype node = RegularFile bytes | Directory "(string \<times> node) list"

type_synonym filesystem = "string \<Rightarrow> node option"

datatype path = Path string | Join path string

fun resolve :: "filesystem \<Rightarrow> path \<Rightarrow> node option" where
  "resolve fs (Path s) = fs s"
| "resolve fs (Join p n) =
     (case resolve fs p of
        Some (Directory entries) \<Rightarrow> map_of entries n
      | _ \<Rightarrow> None)"

definition path_exists :: "filesystem \<Rightarrow> path \<Rightarrow> bool" where
  "path_exists fs p = (resolve fs p \<noteq> None)"

definition isfile :: "filesystem \<Rightarrow> path \<Rightarrow> bool" where
  "isfile fs p = (case resolve fs p of Some (RegularFile _) \<Rightarrow> True | _ \<Rightarrow> False)"

definition isdir :: "filesystem \<Rightarrow> path \<Rightarrow> bool" where
  "isdir fs p = (case resolve fs p of Some (Directory _) \<Rightarrow> True | _ \<Rightarrow> False)"

text \<open>Placing a node at a path and removing the node at a path, inside an existing parent.\<close>

fun put :: "filesystem \<Rightarrow> path \<Rightarrow> node \<Rightarrow> filesystem" where
  "put fs (Path s) v = fs(s \<mapsto> v)"
| "put fs (Join p n) v =
     (case resolve fs p of
        Some (Directory entries) \<Rightarrow> put fs p (Directory (AList.update n v entries))
      | _ \<Rightarrow> fs)"

fun unlink :: "filesystem \<Rightarrow> path \<Rightarrow> filesystem" where
  "unlink fs (Path s) = fs(s := None)"
| "unlink fs (Join p n) =
     (case resolve fs p of
        Some (Directory entries) \<Rightarrow> put fs p (Directory (AList.delete n entries))
      | _ \<Rightarrow> fs)"

fun basename :: "path \<Rightarrow> string" where
  "basename (Path s) = s"
| "basename (Join p n) = n"

text \<open>
  \<open>os.makedirs\<close>: an existing path is an error unless \<open>exist_ok\<close> is set and the path is a
  directory.
\<close>

definition makedirs :: "filesystem \<Rightarrow> string \<Rightarrow> bool \<Rightarrow> error + filesystem" where
  "makedirs fs s exist_ok =
     (if path_exists fs (Path s)
      then (if exist_ok \<and> isdir fs (Path s) then Inr fs else Inl FileExistsError)
      else Inr (fs(s \<mapsto> Directory [])))"

text \<open>
  \<open>open(p, 'wb')\<close> followed by \<open>write\<close>: the file is created or replaced; the parent has to
  be a directory and the path must not be one.
\<close>

fun open_wb_write :: "filesystem \<Rightarrow> path \<Rightarrow> bytes \<Rightarrow> error + filesystem" where
  "open_wb_write fs (Path s) b =
     (case fs s of
        Some (Directory _) \<Rightarrow> Inl IsADirectoryError
      | _ \<Rightarrow> Inr (fs(s \<mapsto> RegularFile b)))"
| "open_wb_write fs (Join p n) b =
     (case resolve fs p of
        None \<Rightarrow> Inl FileNotFoundError
      | Some (RegularFile _) \<Rightarrow> Inl NotADirectoryError
      | Some (Directory entries) \<Rightarrow>
          (case map_of entries n of
             Some (Directory _) \<Rightarrow> Inl IsADirectoryError
           | _ \<Rightarrow> Inr (put fs (Join p n) (RegularFile b))))"

text \<open>\<open>os.listdir\<close>: every name of the directory once.\<close>

definition listdir :: "filesystem \<Rightarrow> string \<Rightarrow> error + string list" where
  "listdir fs s =
     (case fs s of
        None \<Rightarrow> Inl FileNotFoundError
      | Some (RegularFile _) \<Rightarrow> Inl NotADirectoryError
      | Some (Directory entries) \<Rightarrow> Inr (remdups (map fst entries)))"

text \<open>
  \<open>os.rename\<close>, with the copy-and-unlink fallback of \<open>shutil.move\<close> failing the same way:
  the parent of the target has to be a directory; an existing file at the target is
  replaced.
\<close>

fun rename :: "filesystem \<Rightarrow> path \<Rightarrow> path \<Rightarrow> error + filesystem" where
  "rename fs src (Path s) =
     (case resolve fs src of
        None \<Rightarrow> Inl FileNotFoundError
      | Some v \<Rightarrow> Inr (put (unlink fs src) (Path s) v))"
| "rename fs src (Join p n) =
     (case resolve fs src of
        None \<Rightarrow> Inl FileNotFoundError
      | Some v \<Rightarrow>
          (case resolve fs p of
             None \<Rightarrow> Inl FileNotFoundError
           | Some (RegularFile _) \<Rightarrow> Inl NotADirectoryError
           | Some (Directory _) \<Rightarrow> Inr (put (unlink fs src) (Join p n) v)))"

text \<open>
  \<open>shutil.move(src, dst)\<close>: when \<open>dst\<close> is a directory the source goes inside it under its
  own name, and an entry of that name already there is an error; otherwise \<open>src\<close> is
  renamed to \<open>dst\<close>.
\<close>

definition shutil_move :: "filesystem \<Rightarrow> path \<Rightarrow> path \<Rightarrow> error + filesystem" where
  "shutil_move fs src dst =
     (if isdir fs dst then
        (let real_dst = Join dst (basename src) in
         if path_exists fs real_dst then Inl ShutilError
         else rename fs src real_dst)
      else rename fs src dst)"

subsection \<open>Formatting integers\<close>

text \<open>The decimal text Python's f-strings give an \<open>int\<close>.\<close>

definition digit :: "nat \<Rightarrow> char" where
  "digit d = ''0123456789'' ! d"

function str_nat :: "nat \<Rightarrow> string" where
  "str_nat n = (if n < 10 then [digit n] else str_nat (n div 10) @ [digit (n mod 10)])"
  by pat_completeness auto
termination
  by (relation "measure id") auto

declare str_nat.simps [simp del]

definition str_int :: "int \<Rightarrow> string" where
  "str_int i = (if i < 0 then CHR ''-'' # str_nat (nat (- i)) else str_nat (nat i))"

definition chunk_name :: "int \<Rightarrow> string" where
  "chunk_name i = str_int i @ ''.chunk''"

subsection \<open>Storage\<close>

text \<open>
  \<open>Storage.storage_chunk\<close>. An I/O operation returns its outcome and the file system it
  leaves, since a failure may come after an effect.
\<close>

definition storage_chunk ::
    "filesystem \<Rightarrow> string \<Rightarrow> int \<Rightarrow> bytes \<Rightarrow> (error + unit) \<times> filesystem" where
  "storage_chunk fs directory chunk_index chunk =
     (case (if \<not> path_exists fs (Path directory) then makedirs fs directory False
            else Inr fs) of
        Inl e \<Rightarrow> (Inl e, fs)
      | Inr fs1 \<Rightarrow>
          (let chunk_path = Join (Path directory) (chunk_name chunk_index) in
           case open_wb_write fs1 chunk_path chunk of
             Inl e \<Rightarrow> (Inl e, fs1)
           | Inr fs2 \<Rightarrow> (Inr (), fs2)))"

text \<open>
  \<open>Storage.move_chunks\<close>. \<open>move_file\<close> is the body of its loop and the three \<open>print\<close>
  calls are the messages; the names come from one call of \<open>listdir\<close> before the loop. An
  exception of \<open>shutil.move\<close> is caught inside the body; one of \<open>makedirs\<close> or \<open>listdir\<close>
  escapes.
\<close>

datatype message = Moved string | MoveError string error | NotAFile string

definition move_file ::
    "filesystem \<Rightarrow> string \<Rightarrow> string \<Rightarrow> string \<Rightarrow> filesystem \<times> message" where
  "move_file fs source_path dest_path filename =
     (let file_path = Join (Path source_path) filename in
      if isfile fs file_path then
        (case shutil_move fs file_path (Join (Path dest_path) filename) of
           Inr fs1 \<Rightarrow> (fs1, Moved filename)
         | Inl e \<Rightarrow> (fs, MoveError filename e))
      else (fs, NotAFile filename))"

fun move_loop ::
    "filesystem \<Rightarrow> string \<Rightarrow> string \<Rightarrow> string list \<Rightarrow> filesystem \<times> message list" where
  "move_loop fs source_path dest_path [] = (fs, [])"
| "move_loop fs source_path dest_path (filename # rest) =
     (let (fs1, msg) = move_file fs source_path dest_path filename;
          (fs2, out) = move_loop fs1 source_path dest_path rest
      in (fs2, msg # out))"

definition move_chunks ::
    "filesystem \<Rightarrow> string \<Rightarrow> string \<Rightarrow> (error + unit) \<times> filesystem \<times> message list" where
  "move_chunks fs source_path dest_path =
     (case (if \<not> path_exists fs (Path dest_path) then makedirs fs dest_path True
            else Inr fs) of
        Inl e \<Rightarrow> (Inl e, fs, [])
      | Inr fs1 \<Rightarrow>
          (case listdir fs1 source_path of
             Inl e \<Rightarrow> (Inl e, fs1, [])
           | Inr names \<Rightarrow>
               (let (fs2, out) = move_loop fs1 source_path dest_path names
                in (Inr (), fs2, out))))"

subsection \<open>State and database access\<close>

record state =
  videos :: "int \<Rightarrow> Video option"
  media :: "VideoMedia list"
  disk :: filesystem

definition find_video :: "state \<Rightarrow> int \<Rightarrow> error + Video" where
  "find_video st vid = (case videos st vid of None \<Rightarrow> Inl VideoDoesNotExist | Some v \<Rightarrow> Inr v)"

text \<open>\<open>video.video_media\<close>: the row of the video, if there is one.\<close>

definition video_media_of :: "VideoMedia list \<Rightarrow> int \<Rightarrow> VideoMedia option" where
  "video_media_of rows vid = find (\<lambda>r. video_id r = vid) rows"

text \<open>
  \<open>VideoMedia.objects.create\<close>: the uniqueness constraint on the video refuses a second
  row. \<open>save\<close> of a fetched row rewrites it.
\<close>

definition objects_create :: "VideoMedia list \<Rightarrow> VideoMedia \<Rightarrow> error + VideoMedia list" where
  "objects_create rows r =
     (if list_ex (\<lambda>r'. video_id r' = video_id r) rows then Inl IntegrityError
      else Inr (rows @ [r]))"

definition save_media :: "VideoMedia list \<Rightarrow> VideoMedia \<Rightarrow> VideoMedia list" where
  "save_media rows m = map (\<lambda>r. if video_id r = video_id m then m else r) rows"

text \<open>
  \<open>VideoMedia.objects.get(video=video)\<close>, inside \<open>transaction.atomic\<close>. Django marks the
  transaction for rollback when a \<open>save\<close> (hence \<open>create\<close>) raises inside an atomic block
  (\<open>Model.save_base\<close> runs under \<open>mark_for_rollback_on_error\<close>, which sets
  \<open>connection.needs_rollback\<close>), and every later query of the block is refused by
  \<open>validate_no_broken_transaction\<close> with \<open>TransactionManagementError\<close>.
\<close>

definition objects_get :: "bool \<Rightarrow> VideoMedia list \<Rightarrow> int \<Rightarrow> error + VideoMedia" where
  "objects_get needs_rollback rows vid =
     (if needs_rollback then Inl TransactionManagementError
      else (case video_media_of rows vid of
              None \<Rightarrow> Inl RelatedObjectDoesNotExist
            | Some m \<Rightarrow> Inr m))"

subsection \<open>VideoService\<close>

definition get_chunk_directory :: "int \<Rightarrow> string" where
  "get_chunk_directory vid = ''/tmp/videos/'' @ str_int vid"

definition new_video_media :: "int \<Rightarrow> VideoMedia" where
  "new_video_media vid =
     \<lparr>video_id = vid, status = UPLOADED_STARTED, video_path = get_chunk_directory vid\<rparr>"

text \<open>
  \<open>__prepare_video_media\<close>, called inside the atomic block of \<open>process_upload\<close>. The
  \<open>except IntegrityError\<close> branch is reached only when another creator commits its row for
  the video between the failed lookup and the insert; \<open>race\<close> says that this happens, and
  the row committed is the one this function creates. The result is the outcome, the
  table as the transaction sees it, and the table committed by others, to which a
  rollback returns.
\<close>

definition prepare_video_media ::
    "VideoMedia list \<Rightarrow> bool \<Rightarrow> int \<Rightarrow>
       (error + VideoMedia) \<times> VideoMedia list \<times> VideoMedia list" where
  "prepare_video_media rows race vid =
     (case video_media_of rows vid of
        Some video_media \<Rightarrow> (Inr video_media, rows, rows)
      | None \<Rightarrow>
          (let committed = (if race then rows @ [new_video_media vid] else rows) in
           case objects_create committed (new_video_media vid) of
             Inr rows1 \<Rightarrow> (Inr (new_video_media vid), rows1, committed)
           | Inl _ \<Rightarrow> (objects_get True committed vid, committed, committed)))"

text \<open>
  \<open>process_upload\<close>. \<open>find_video\<close> is outside the atomic block. An exception inside the
  block rolls the database back; what was written to the file system stays.
\<close>

definition process_upload ::
    "state \<Rightarrow> bool \<Rightarrow> int \<Rightarrow> int \<Rightarrow> bytes \<Rightarrow> (error + unit) \<times> state" where
  "process_upload st race vid chunk_index chunk =
     (case find_video st vid of
        Inl e \<Rightarrow> (Inl e, st)
      | Inr video \<Rightarrow>
          (let directory = get_chunk_directory vid in
           case prepare_video_media (media st) race vid of
             (Inl e, rows, committed) \<Rightarrow> (Inl e, st\<lparr>media := committed\<rparr>)
           | (Inr video_media, rows, committed) \<Rightarrow>
               if status video_media = PROCESS_STARTED then
                 (Inl (VideoMediaInvalidStatusException ''An upload is already in progress.''),
                  st\<lparr>media := committed\<rparr>)
               else if status video_media = UPLOADED_STARTED then
                 (case storage_chunk (disk st) (video_path video_media) chunk_index chunk of
                    (Inl e, fs1) \<Rightarrow> (Inl e, st\<lparr>media := committed, disk := fs1\<rparr>)
                  | (Inr _, fs1) \<Rightarrow> (Inr (), st\<lparr>media := rows, disk := fs1\<rparr>))
               else
                 (let reupload = (status video_media = PROCESS_FINISHED);
                      video_media1 =
                        (if reupload then video_media\<lparr>video_path := directory\<rparr>
                         else video_media);
                      videos1 =
                        (if reupload then (videos st)(vid \<mapsto> video\<lparr>is_published := False\<rparr>)
                         else videos st);
                      video_media2 = video_media1\<lparr>status := UPLOADED_STARTED\<rparr>;
                      rows1 = save_media rows video_media2
                  in case storage_chunk (disk st) (video_path video_media2) chunk_index chunk of
                       (Inl e, fs1) \<Rightarrow> (Inl e, st\<lparr>media := committed, disk := fs1\<rparr>)
                     | (Inr _, fs1) \<Rightarrow>
                         (Inr (), st\<lparr>videos := videos1, media := rows1, disk := fs1\<rparr>))))"

text \<open>\<open>__validate_chunks\<close>: the loop over \<open>range(total_chunks)\<close> returns at the first gap.\<close>

function chunks_from :: "filesystem \<Rightarrow> string \<Rightarrow> int \<Rightarrow> int \<Rightarrow> bool" where
  "chunks_from fs vpath i total_chunks =
     (if i < total_chunks then
        (if \<not> path_exists fs (Join (Path vpath) (chunk_name i)) then False
         else chunks_from fs vpath (i + 1) total_chunks)
      else True)"
  by pat_completeness auto
termination
  by (relation "measure (\<lambda>(fs, vpath, i, total_chunks). nat (total_chunks - i))") auto

declare chunks_from.simps [simp del]

definition validate_chunks :: "filesystem \<Rightarrow> string \<Rightarrow> int \<Rightarrow> bool" where
  "validate_chunks fs vpath total_chunks =
     (if \<not> path_exists fs (Path vpath) then False
      else chunks_from fs vpath 0 total_chunks)"

definition finalize_upload :: "state \<Rightarrow> int \<Rightarrow> int \<Rightarrow> (error + unit) \<times> state" where
  "finalize_upload st vid total_chunks =
     (case find_video st vid of
        Inl e \<Rightarrow> (Inl e, st)
      | Inr video \<Rightarrow>
          (case video_media_of (media st) vid of
             None \<Rightarrow> (Inl (VideoMediaNotExistsException ''Upload not started.''), st)
           | Some video_media \<Rightarrow>
               if status video_media \<noteq> UPLOADED_STARTED then
                 (Inl (VideoMediaInvalidStatusException ''Upload must be started to finish it.''),
                  st)
               else if \<not> validate_chunks (disk st) (video_path video_media) total_chunks then
                 (Inl (VideoChunkUploadException ''Chunks are invalid.''), st)
               else
                 (Inr (),
                  st\<lparr>media := save_media (media st)
                                 (video_media\<lparr>status := PROCESS_STARTED\<rparr>)\<rparr>)))"

definition external_directory :: "int \<Rightarrow> string" where
  "external_directory vid = ''/media/uploads/'' @ str_int vid"

definition upload_chunks_to_external_storage ::
    "state \<Rightarrow> int \<Rightarrow> (error + unit) \<times> state \<times> message list" where
  "upload_chunks_to_external_storage st vid =
     (case find_video st vid of
        Inl e \<Rightarrow> (Inl e, st, [])
      | Inr video \<Rightarrow>
          (let source_path = get_chunk_directory vid;
               dest_path = external_directory vid
           in case move_chunks (disk st) source_path dest_path of
                (r, fs1, out) \<Rightarrow> (r, st\<lparr>disk := fs1\<rparr>, out)))"

definition register_processed_video_path ::
    "state \<Rightarrow> int \<Rightarrow> string \<Rightarrow> (error + unit) \<times> state" where
  "register_processed_video_path st vid vpath =
     (case find_video st vid of
        Inl e \<Rightarrow> (Inl e, st)
      | Inr video \<Rightarrow>
          (case video_media_of (media st) vid of
             None \<Rightarrow> (Inl RelatedObjectDoesNotExist, st)
           | Some video_media \<Rightarrow>
               if status video_media \<noteq> PROCESS_STARTED then
                 (Inl (VideoMediaInvalidStatusException
                         ''Processing must be started to finish it.''), st)
               else
                 (Inr (),
                  st\<lparr>media := save_media (media st)
                                 (video_media\<lparr>video_path := vpath,
                                              status := PROCESS_FINISHED\<rparr>)\<rparr>)))"

subsection \<open>The upload form and its view\<close>

text \<open>
  \<open>VideoChunkUploadForm\<close> of \<open>core/form.py\<close>: both fields are required, Django's
  \<open>FileField\<close> refuses an empty file, \<open>chunkIndex\<close> has \<open>min_value=0\<close>, and \<open>clean_chunk\<close>
  raises a \<open>ValidationError\<close> for a chunk above \<open>MAX_VIDEO_CHUNK_SIZE\<close>. A submitted form
  is the uploaded file, if any, and the integer of \<open>chunkIndex\<close>, if there is one.
\<close>

definition MAX_VIDEO_CHUNK_SIZE :: nat where
  "MAX_VIDEO_CHUNK_SIZE = 1 * 1024 * 1024"

datatype form_error = Required | EmptyFile | MinValue | CleanChunkError

record VideoChunkUploadForm =
  chunk_file :: "bytes option"
  chunkIndex :: "int option"

definition clean_chunk :: "bytes \<Rightarrow> form_error + bytes" where
  "clean_chunk chunk =
     (if length chunk > MAX_VIDEO_CHUNK_SIZE then Inl CleanChunkError else Inr chunk)"

definition chunk_errors :: "bytes option \<Rightarrow> (string \<times> form_error) list" where
  "chunk_errors c =
     (case c of
        None \<Rightarrow> [(''chunk'', Required)]
      | Some b \<Rightarrow>
          if length b = 0 then [(''chunk'', EmptyFile)]
          else (case clean_chunk b of Inl e \<Rightarrow> [(''chunk'', e)] | Inr _ \<Rightarrow> []))"

definition chunkIndex_errors :: "int option \<Rightarrow> (string \<times> form_error) list" where
  "chunkIndex_errors i =
     (case i of
        None \<Rightarrow> [(''chunkIndex'', Required)]
      | Some k \<Rightarrow> if k < 0 then [(''chunkIndex'', MinValue)] else [])"

definition form_errors :: "VideoChunkUploadForm \<Rightarrow> (string \<times> form_error) list" where
  "form_errors form = chunk_errors (chunk_file form) @ chunkIndex_errors (chunkIndex form)"

text \<open>
  \<open>VideoAdmin._do_upload_video_chunks\<close> of \<open>core/admin.py\<close>: an invalid form is answered
  with status 400 before the service is called.
\<close>

datatype body = FormErrors "(string \<times> form_error) list" | ErrorText error | NoContent

datatype JsonResponse = JsonResponse body nat

definition do_upload_video_chunks ::
    "state \<Rightarrow> bool \<Rightarrow> int \<Rightarrow> VideoChunkUploadForm \<Rightarrow> JsonResponse \<times> state" where
  "do_upload_video_chunks st race vid form =
     (if form_errors form \<noteq> [] then (JsonResponse (FormErrors (form_errors form)) 400, st)
      else
        (case (chunk_file form, chunkIndex form) of
           (Some chunk, Some chunk_index) \<Rightarrow>
             (case process_upload st race vid chunk_index chunk of
                (Inl VideoDoesNotExist, st1) \<Rightarrow>
                  (JsonResponse (ErrorText VideoDoesNotExist) 404, st1)
              | (Inl e, st1) \<Rightarrow> (JsonResponse (ErrorText e) 500, st1)
              | (Inr _, st1) \<Rightarrow> (JsonResponse NoContent 204, st1))
         | _ \<Rightarrow> (JsonResponse (FormErrors (form_errors form)) 400, st)))"

subsection \<open>The status machine\<close>

text \<open>
  The status of a video's record, \<open>None\<close> when it has none, and the edges of the
  lifecycle. A state is reachable when the service's operations lead to it from a state
  without media records.
\<close>

definition status_of :: "state \<Rightarrow> int \<Rightarrow> Status option" where
  "status_of st vid = map_option status (video_media_of (media st) vid)"

definition edge :: "Status option \<Rightarrow> Status option \<Rightarrow> bool" where
  "edge s t =
     ((s, t) \<in> {(None, Some UPLOADED_STARTED),
                (Some UPLOADED_STARTED, Some UPLOADED_STARTED),
                (Some UPLOADED_STARTED, Some PROCESS_STARTED),
                (Some PROCESS_STARTED, Some PROCESS_FINISHED),
                (Some PROCESS_FINISHED, Some UPLOADED_STARTED)})"

inductive reachable :: "state \<Rightarrow> bool" where
  initial: "media st = [] \<Longrightarrow> reachable st"
| upload: "reachable st \<Longrightarrow> reachable (snd (process_upload st race vid chunk_index chunk))"
| finalize: "reachable st \<Longrightarrow> reachable (snd (finalize_upload st vid total_chunks))"
| relocate: "reachable st \<Longrightarrow> reachable (fst (snd (upload_chunks_to_external_storage st vid)))"
| register: "reachable st \<Longrightarrow> reachable (snd (register_processed_video_path st vid vpath))"

text \<open>The name a message of \<open>move_chunks\<close> is about.\<close>

fun subject :: "message \<Rightarrow> string" where
  "subject (Moved n) = n"
| "subject (MoveError n e) = n"
| "subject (NotAFile n) = n"

text \<open>
  A file of the source directory has been relocated when it is gone from the source and
  its node is found where \<open>shutil.move\<close> puts it: under the destination by its name, or
  inside the directory of that name that the destination had.
\<close>

definition relocated ::
    "filesystem \<Rightarrow> filesystem \<Rightarrow> string \<Rightarrow> string \<Rightarrow> string \<Rightarrow> bool" where
  "relocated fs fs' source_path dest_path n =
     (resolve fs' (Join (Path source_path) n) = None \<and>
      resolve fs'
        (if isdir fs (Join (Path dest_path) n) then Join (Join (Path dest_path) n) n
         else Join (Path dest_path) n) =
      resolve fs (Join (Path source_path) n))"

subsection \<open>Example states\<close>

text \<open>Video 1 with a given table of media records and a given file system.\<close>

definition video1 :: Video where
  "video1 = \<lparr>is_published = True\<rparr>"

definition state_of :: "VideoMedia list \<Rightarrow> filesystem \<Rightarrow> state" where
  "state_of rows d = \<lparr>videos = Map.empty(1 \<mapsto> video1), media = rows, disk = d\<rparr>"

definition media1 :: "Status \<Rightarrow> string \<Rightarrow> VideoMedia" where
  "media1 s p = \<lparr>video_id = 1, status = s, video_path = p\<rparr>"

definition two_chunks :: filesystem where
  "two_chunks =
     Map.empty(''/tmp/videos/1'' \<mapsto>
       Directory [(''0.chunk'', RegularFile [1, 2]), (''1.chunk'', RegularFile [3])])"

definition empty_directory :: filesystem where
  "empty_directory = Map.empty(''/tmp/videos/1'' \<mapsto> Directory [])"

text \<open>
  A relocation with one clash: the destination already has a directory \<open>0.chunk\<close> that
  holds a file \<open>0.chunk\<close>, and the source has a subdirectory among its chunks.
\<close>

definition relocation_example :: filesystem where
  "relocation_example =
     Map.empty(
       ''/tmp/videos/1'' \<mapsto>
         Directory [(''0.chunk'', RegularFile [1, 2]), (''1.chunk'', RegularFile [3]),
                    (''parts'', Directory [])],
       ''/media/uploads/1'' \<mapsto>
         Directory [(''0.chunk'', Directory [(''0.chunk'', RegularFile [9])])])"

section \<open>Properties\<close>

subsection \<open>Auxiliary facts\<close>

lemma str_int_0: "str_int 0 = ''0''"
  by code_simp

lemma str_int_1: "str_int 1 = ''1''"
  by code_simp

lemma chunk_name_0: "chunk_name 0 = ''0.chunk''"
  by (simp add: chunk_name_def str_int_0)

lemma chunk_name_1: "chunk_name 1 = ''1.chunk''"
  by (simp add: chunk_name_def str_int_1)

lemma get_chunk_directory_1: "get_chunk_directory 1 = ''/tmp/videos/1''"
  by (simp add: get_chunk_directory_def str_int_1)

lemma external_directory_1: "external_directory 1 = ''/media/uploads/1''"
  by (simp add: external_directory_def str_int_1)

lemma path_exists_parent: "path_exists fs (Join p n) \<Longrightarrow> path_exists fs p"
  by (auto simp: path_exists_def split: option.splits)

lemma chunks_from_iff:
  "chunks_from fs vpath i n \<longleftrightarrow>
     (\<forall>j\<in>{i..<n}. path_exists fs (Join (Path vpath) (chunk_name j)))"
proof (induction fs vpath i n rule: chunks_from.induct)
  case (1 fs vpath i n)
  show ?case
  proof (cases "i < n")
    case False
    then show ?thesis by (simp add: chunks_from.simps [of fs vpath i n])
  next
    case True
    have split: "{i..<n} = insert i {i + 1..<n}" using True by auto
    show ?thesis
    proof (cases "path_exists fs (Join (Path vpath) (chunk_name i))")
      case False
      with True show ?thesis
        by (auto simp: chunks_from.simps [of fs vpath i n])
    next
      case ex: True
      with True 1 have "chunks_from fs vpath i n \<longleftrightarrow>
          (\<forall>j\<in>{i + 1..<n}. path_exists fs (Join (Path vpath) (chunk_name j)))"
        by (simp add: chunks_from.simps [of fs vpath i n])
      with ex show ?thesis unfolding split by simp
    qed
  qed
qed

lemma validate_chunks_eq:
  "validate_chunks fs vpath n \<longleftrightarrow>
     path_exists fs (Path vpath) \<and>
     (\<forall>j\<in>{0..<n}. path_exists fs (Join (Path vpath) (chunk_name j)))"
  by (simp add: validate_chunks_def chunks_from_iff)

lemma video_media_of_Some_id: "video_media_of rows vid = Some m \<Longrightarrow> video_id m = vid"
  by (auto simp: video_media_of_def find_Some_iff)

lemma video_media_of_save_same:
  "video_media_of rows vid = Some m \<Longrightarrow> video_id m' = vid \<Longrightarrow>
   video_media_of (save_media rows m') vid = Some m'"
  unfolding video_media_of_def save_media_def
  by (induction rows) (auto split: if_splits)

lemma video_media_of_save_other:
  "video_id m' \<noteq> vid \<Longrightarrow> video_media_of (save_media rows m') vid = video_media_of rows vid"
  unfolding video_media_of_def save_media_def
  by (induction rows) (auto split: if_splits)

lemma int_range_0_2: "{0..<2::int} = {0, 1}"
  by auto

subsection \<open>Chunk validation\<close>

text \<open>
  C8. \<open>__validate_chunks\<close> answers \<open>False\<close>, and raises nothing, when the directory is
  absent; for a directory that exists it answers \<open>True\<close> exactly when \<open>path.exists\<close> holds
  of the chunk of every index in \<open>[0, total_chunks)\<close>. With at least one chunk asked for
  the second alone decides, since a chunk that exists lies in a directory that exists.
\<close>

theorem validate_chunks_spec:
  "(\<not> path_exists fs (Path vpath) \<longrightarrow> validate_chunks fs vpath total_chunks = False) \<and>
   (path_exists fs (Path vpath) \<longrightarrow>
      (validate_chunks fs vpath total_chunks \<longleftrightarrow>
         (\<forall>i\<in>{0..<total_chunks}.
            path_exists fs (Join (Path vpath) (chunk_name i))))) \<and>
   (0 < total_chunks \<longrightarrow>
      (validate_chunks fs vpath total_chunks \<longleftrightarrow>
         (\<forall>i\<in>{0..<total_chunks}.
            path_exists fs (Join (Path vpath) (chunk_name i)))))"
proof -
  have "path_exists fs (Path vpath)"
    if "0 < total_chunks"
      and "\<forall>i\<in>{0..<total_chunks}. path_exists fs (Join (Path vpath) (chunk_name i))"
  proof -
    from that have "path_exists fs (Join (Path vpath) (chunk_name 0))" by simp
    then show ?thesis by (rule path_exists_parent)
  qed
  then show ?thesis
    by (auto simp: validate_chunks_eq)
qed

theorem validate_chunks_spec_witness:
  "\<not> path_exists Map.empty (Path ''/tmp/videos/1'') \<and>
   validate_chunks Map.empty ''/tmp/videos/1'' 0 = False \<and>
   path_exists two_chunks (Path ''/tmp/videos/1'') \<and>
   validate_chunks two_chunks ''/tmp/videos/1'' 2 = True \<and>
   validate_chunks two_chunks ''/tmp/videos/1'' 3 = False"
proof -
  have absent: "\<not> path_exists Map.empty (Path ''/tmp/videos/1'')"
    by (simp add: path_exists_def)
  have present: "path_exists two_chunks (Path ''/tmp/videos/1'')"
    by (simp add: path_exists_def two_chunks_def)
  have both: "\<forall>i\<in>{0..<2::int}. path_exists two_chunks (Join (Path ''/tmp/videos/1'') (chunk_name i))"
    by (simp add: int_range_0_2 chunk_name_0 chunk_name_1 path_exists_def two_chunks_def)
  have third: "\<not> (\<forall>i\<in>{0..<3::int}.
      path_exists two_chunks (Join (Path ''/tmp/videos/1'') (chunk_name i)))"
  proof -
    have "chunk_name 2 = ''2.chunk''" by code_simp
    then have "\<not> path_exists two_chunks (Join (Path ''/tmp/videos/1'') (chunk_name 2))"
      by (simp add: path_exists_def two_chunks_def)
    then show ?thesis by force
  qed
  from validate_chunks_spec [of Map.empty "''/tmp/videos/1''" 0]
    validate_chunks_spec [of two_chunks "''/tmp/videos/1''" 2]
    validate_chunks_spec [of two_chunks "''/tmp/videos/1''" 3]
    absent present both third
  show ?thesis by blast
qed

subsection \<open>Finalizing an upload\<close>

lemma finalize_upload_missing_record:
  assumes "videos st vid = Some video" and "video_media_of (media st) vid = None"
  shows "finalize_upload st vid n = (Inl (VideoMediaNotExistsException ''Upload not started.''), st)"
  using assms by (simp add: finalize_upload_def find_video_def)

lemma finalize_upload_wrong_status:
  assumes "videos st vid = Some video" and "video_media_of (media st) vid = Some m"
    and "status m \<noteq> UPLOADED_STARTED"
  shows "finalize_upload st vid n =
    (Inl (VideoMediaInvalidStatusException ''Upload must be started to finish it.''), st)"
  using assms by (simp add: finalize_upload_def find_video_def)

lemma finalize_upload_invalid_chunks:
  assumes "videos st vid = Some video" and "video_media_of (media st) vid = Some m"
    and "status m = UPLOADED_STARTED"
    and "\<not> validate_chunks (disk st) (video_path m) n"
  shows "finalize_upload st vid n = (Inl (VideoChunkUploadException ''Chunks are invalid.''), st)"
  using assms by (simp add: finalize_upload_def find_video_def)

lemma finalize_upload_valid_chunks:
  assumes "videos st vid = Some video" and "video_media_of (media st) vid = Some m"
    and "status m = UPLOADED_STARTED"
    and "validate_chunks (disk st) (video_path m) n"
  shows "finalize_upload st vid n =
    (Inr (), st\<lparr>media := save_media (media st) (m\<lparr>status := PROCESS_STARTED\<rparr>)\<rparr>)"
  using assms by (simp add: finalize_upload_def find_video_def)

lemma status_of_after_save:
  assumes "video_media_of (media st) vid = Some m" and "video_id m' = vid"
  shows "status_of (st\<lparr>media := save_media (media st) m'\<rparr>) vid = Some (status m')"
  using assms by (simp add: status_of_def video_media_of_save_same)

text \<open>
  C10. With a record in \<open>UPLOADED_STARTED\<close> whose directory exists, \<open>finalize_upload\<close>
  succeeds for every \<open>total_chunks\<close> that is zero or negative: the loop of
  \<open>__validate_chunks\<close> has no index to check, and the service sets no lower bound.
\<close>

theorem finalize_upload_nonpositive_total:
  assumes "videos st vid = Some video"
    and "video_media_of (media st) vid = Some m"
    and "status m = UPLOADED_STARTED"
    and "path_exists (disk st) (Path (video_path m))"
    and "total_chunks \<le> 0"
  shows "finalize_upload st vid total_chunks =
           (Inr (), st\<lparr>media := save_media (media st) (m\<lparr>status := PROCESS_STARTED\<rparr>)\<rparr>) \<and>
         status_of (snd (finalize_upload st vid total_chunks)) vid = Some PROCESS_STARTED"
proof -
  from assms(5) have "{0..<total_chunks} = {}" by simp
  with assms(4) have valid: "validate_chunks (disk st) (video_path m) total_chunks"
    by (simp add: validate_chunks_eq)
  have result: "finalize_upload st vid total_chunks =
      (Inr (), st\<lparr>media := save_media (media st) (m\<lparr>status := PROCESS_STARTED\<rparr>)\<rparr>)"
    by (rule finalize_upload_valid_chunks [OF assms(1-3) valid])
  from assms(2) have "video_id (m\<lparr>status := PROCESS_STARTED\<rparr>) = vid"
    by (simp add: video_media_of_Some_id)
  with assms(2) result show ?thesis
    by (simp add: status_of_after_save)
qed

theorem finalize_upload_nonpositive_total_witness:
  "fst (finalize_upload (state_of [media1 UPLOADED_STARTED ''/tmp/videos/1''] empty_directory) 1 0)
     = Inr () \<and>
   status_of (snd (finalize_upload
     (state_of [media1 UPLOADED_STARTED ''/tmp/videos/1''] empty_directory) 1 (- 5))) 1
     = Some PROCESS_STARTED"
proof -
  let ?st = "state_of [media1 UPLOADED_STARTED ''/tmp/videos/1''] empty_directory"
  let ?m = "media1 UPLOADED_STARTED ''/tmp/videos/1''"
  have v: "videos ?st 1 = Some video1" by (simp add: state_of_def)
  have r: "video_media_of (media ?st) 1 = Some ?m"
    by (simp add: state_of_def video_media_of_def media1_def)
  have s: "status ?m = UPLOADED_STARTED" by (simp add: media1_def)
  have d: "path_exists (disk ?st) (Path (video_path ?m))"
    by (simp add: state_of_def media1_def empty_directory_def path_exists_def)
  have zero: "(0::int) \<le> 0" and negative: "(- 5::int) \<le> 0" by simp_all
  have "fst (finalize_upload ?st 1 0) = Inr ()"
    using finalize_upload_nonpositive_total [OF v r s d zero] by simp
  moreover have "status_of (snd (finalize_upload ?st 1 (- 5))) 1 = Some PROCESS_STARTED"
    using finalize_upload_nonpositive_total [OF v r s d negative] by (rule conjunct2)
  ultimately show ?thesis by (rule conjI)
qed

text \<open>
  C1, as the code has it. For a video that exists, \<open>finalize_upload\<close> raises
  \<open>VideoMediaNotExistsException\<close> when the video has no record, raises
  \<open>VideoMediaInvalidStatusException\<close> when the record is not in \<open>UPLOADED_STARTED\<close>,
  raises \<open>VideoChunkUploadException\<close> and leaves the state as it was when the record's
  directory does not exist or the chunk of some index in \<open>[0, total_chunks)\<close> is missing
  from it, and otherwise saves the record with status \<open>PROCESS_STARTED\<close>.
\<close>

theorem finalize_upload_outcomes:
  assumes "videos st vid = Some video"
  shows
    "(video_media_of (media st) vid = None \<longrightarrow>
        finalize_upload st vid total_chunks =
          (Inl (VideoMediaNotExistsException ''Upload not started.''), st)) \<and>
     (\<forall>m. video_media_of (media st) vid = Some m \<longrightarrow>
        (status m \<noteq> UPLOADED_STARTED \<longrightarrow>
           finalize_upload st vid total_chunks =
             (Inl (VideoMediaInvalidStatusException ''Upload must be started to finish it.''),
              st)) \<and>
        (status m = UPLOADED_STARTED \<and>
         (\<not> path_exists (disk st) (Path (video_path m)) \<or>
          (\<exists>i\<in>{0..<total_chunks}.
             \<not> path_exists (disk st) (Join (Path (video_path m)) (chunk_name i)))) \<longrightarrow>
           finalize_upload st vid total_chunks =
             (Inl (VideoChunkUploadException ''Chunks are invalid.''), st)) \<and>
        (status m = UPLOADED_STARTED \<and>
         path_exists (disk st) (Path (video_path m)) \<and>
         (\<forall>i\<in>{0..<total_chunks}.
            path_exists (disk st) (Join (Path (video_path m)) (chunk_name i))) \<longrightarrow>
           finalize_upload st vid total_chunks =
             (Inr (), st\<lparr>media := save_media (media st) (m\<lparr>status := PROCESS_STARTED\<rparr>)\<rparr>) \<and>
           status_of (snd (finalize_upload st vid total_chunks)) vid = Some PROCESS_STARTED))"
proof (intro conjI allI impI)
  assume "video_media_of (media st) vid = None"
  with assms show "finalize_upload st vid total_chunks =
      (Inl (VideoMediaNotExistsException ''Upload not started.''), st)"
    by (rule finalize_upload_missing_record)
next
  fix m
  assume "video_media_of (media st) vid = Some m" and "status m \<noteq> UPLOADED_STARTED"
  with assms show "finalize_upload st vid total_chunks =
      (Inl (VideoMediaInvalidStatusException ''Upload must be started to finish it.''), st)"
    by (rule finalize_upload_wrong_status)
next
  fix m
  assume r: "video_media_of (media st) vid = Some m"
    and bad: "status m = UPLOADED_STARTED \<and>
      (\<not> path_exists (disk st) (Path (video_path m)) \<or>
       (\<exists>i\<in>{0..<total_chunks}.
          \<not> path_exists (disk st) (Join (Path (video_path m)) (chunk_name i))))"
  then have "\<not> validate_chunks (disk st) (video_path m) total_chunks"
    by (auto simp: validate_chunks_eq)
  with assms r bad show "finalize_upload st vid total_chunks =
      (Inl (VideoChunkUploadException ''Chunks are invalid.''), st)"
    by (simp add: finalize_upload_invalid_chunks)
next
  fix m
  assume r: "video_media_of (media st) vid = Some m"
    and good: "status m = UPLOADED_STARTED \<and>
      path_exists (disk st) (Path (video_path m)) \<and>
      (\<forall>i\<in>{0..<total_chunks}.
         path_exists (disk st) (Join (Path (video_path m)) (chunk_name i)))"
  then have valid: "validate_chunks (disk st) (video_path m) total_chunks"
    by (simp add: validate_chunks_eq)
  from good have s: "status m = UPLOADED_STARTED" by simp
  show result: "finalize_upload st vid total_chunks =
      (Inr (), st\<lparr>media := save_media (media st) (m\<lparr>status := PROCESS_STARTED\<rparr>)\<rparr>)"
    by (rule finalize_upload_valid_chunks [OF assms r s valid])
  from r have "video_id (m\<lparr>status := PROCESS_STARTED\<rparr>) = vid"
    by (simp add: video_media_of_Some_id)
  with r result show "status_of (snd (finalize_upload st vid total_chunks)) vid =
      Some PROCESS_STARTED"
    by (simp add: status_of_after_save)
qed

theorem finalize_upload_outcomes_witness:
  "finalize_upload (state_of [] Map.empty) 1 2 =
     (Inl (VideoMediaNotExistsException ''Upload not started.''), state_of [] Map.empty) \<and>
   finalize_upload (state_of [media1 PROCESS_STARTED ''/tmp/videos/1''] two_chunks) 1 2 =
     (Inl (VideoMediaInvalidStatusException ''Upload must be started to finish it.''),
      state_of [media1 PROCESS_STARTED ''/tmp/videos/1''] two_chunks) \<and>
   finalize_upload (state_of [media1 UPLOADED_STARTED ''/tmp/videos/1''] two_chunks) 1 3 =
     (Inl (VideoChunkUploadException ''Chunks are invalid.''),
      state_of [media1 UPLOADED_STARTED ''/tmp/videos/1''] two_chunks) \<and>
   status_of (snd (finalize_upload
     (state_of [media1 UPLOADED_STARTED ''/tmp/videos/1''] two_chunks) 1 2)) 1 =
     Some PROCESS_STARTED"
proof -
  let ?none = "state_of [] Map.empty"
  let ?busy = "state_of [media1 PROCESS_STARTED ''/tmp/videos/1''] two_chunks"
  let ?open = "state_of [media1 UPLOADED_STARTED ''/tmp/videos/1''] two_chunks"
  have v: "videos ?none 1 = Some video1" "videos ?busy 1 = Some video1"
    "videos ?open 1 = Some video1"
    by (simp_all add: state_of_def)
  have none: "video_media_of (media ?none) 1 = None"
    by (simp add: state_of_def video_media_of_def)
  have busy: "video_media_of (media ?busy) 1 = Some (media1 PROCESS_STARTED ''/tmp/videos/1'')"
    "status (media1 PROCESS_STARTED ''/tmp/videos/1'') \<noteq> UPLOADED_STARTED"
    by (simp_all add: state_of_def video_media_of_def media1_def)
  have "open": "video_media_of (media ?open) 1 = Some (media1 UPLOADED_STARTED ''/tmp/videos/1'')"
    "status (media1 UPLOADED_STARTED ''/tmp/videos/1'') = UPLOADED_STARTED"
    by (simp_all add: state_of_def video_media_of_def media1_def)
  have dir: "path_exists (disk ?open) (Path (video_path (media1 UPLOADED_STARTED ''/tmp/videos/1'')))"
    by (simp add: state_of_def media1_def path_exists_def two_chunks_def)
  have both: "\<forall>i\<in>{0..<2::int}. path_exists (disk ?open)
      (Join (Path (video_path (media1 UPLOADED_STARTED ''/tmp/videos/1''))) (chunk_name i))"
    by (simp add: int_range_0_2 chunk_name_0 chunk_name_1 path_exists_def two_chunks_def
        state_of_def media1_def)
  have "chunk_name 2 = ''2.chunk''" by code_simp
  then have "\<not> path_exists (disk ?open)
      (Join (Path (video_path (media1 UPLOADED_STARTED ''/tmp/videos/1''))) (chunk_name 2))"
    by (simp add: path_exists_def two_chunks_def state_of_def media1_def)
  then have gap: "\<exists>i\<in>{0..<3::int}. \<not> path_exists (disk ?open)
      (Join (Path (video_path (media1 UPLOADED_STARTED ''/tmp/videos/1''))) (chunk_name i))"
    by force
  have "finalize_upload ?none 1 2 =
      (Inl (VideoMediaNotExistsException ''Upload not started.''), ?none)"
    using finalize_upload_outcomes [OF v(1), of 2] none by blast
  moreover have "finalize_upload ?busy 1 2 =
      (Inl (VideoMediaInvalidStatusException ''Upload must be started to finish it.''), ?busy)"
    using finalize_upload_outcomes [OF v(2), of 2] busy by blast
  moreover have "finalize_upload ?open 1 3 =
      (Inl (VideoChunkUploadException ''Chunks are invalid.''), ?open)"
    using finalize_upload_outcomes [OF v(3), of 3] "open" gap by blast
  moreover have "status_of (snd (finalize_upload ?open 1 2)) 1 = Some PROCESS_STARTED"
    using finalize_upload_outcomes [OF v(3), of 2] "open" dir both by blast
  ultimately show ?thesis by blast
qed

text \<open>
  C1, as the claim has it, fails for \<open>total_chunks = 0\<close> when the record's directory is
  absent: no index of the empty range is missing, and still the upload is refused with
  \<open>VideoChunkUploadException\<close> and the status stays \<open>UPLOADED_STARTED\<close>.
\<close>

theorem finalize_upload_absent_directory_counterexample:
  "status_of (state_of [media1 UPLOADED_STARTED ''/tmp/videos/1''] Map.empty) 1 =
     Some UPLOADED_STARTED \<and>
   {0..<0::int} = {} \<and>
   finalize_upload (state_of [media1 UPLOADED_STARTED ''/tmp/videos/1''] Map.empty) 1 0 =
     (Inl (VideoChunkUploadException ''Chunks are invalid.''),
      state_of [media1 UPLOADED_STARTED ''/tmp/videos/1''] Map.empty) \<and>
   status_of (snd (finalize_upload
     (state_of [media1 UPLOADED_STARTED ''/tmp/videos/1''] Map.empty) 1 0)) 1 =
     Some UPLOADED_STARTED"
  by (simp add: finalize_upload_def find_video_def state_of_def video_media_of_def media1_def
      validate_chunks_def path_exists_def status_of_def)

subsection \<open>Submitting a chunk\<close>

lemma prepare_video_media_existing:
  "video_media_of rows vid = Some m \<Longrightarrow> prepare_video_media rows race vid = (Inr m, rows, rows)"
  by (simp add: prepare_video_media_def)

text \<open>
  C2. While the record is in \<open>PROCESS_STARTED\<close>, \<open>process_upload\<close> raises
  \<open>VideoMediaInvalidStatusException\<close> with the message of the conflict and returns the
  state it was given: the videos, the record with its status and path, and the files.
\<close>

theorem process_upload_conflict:
  assumes "videos st vid = Some video"
    and "video_media_of (media st) vid = Some m"
    and "status m = PROCESS_STARTED"
  shows "process_upload st race vid chunk_index chunk =
    (Inl (VideoMediaInvalidStatusException ''An upload is already in progress.''), st)"
  using assms
  by (simp add: process_upload_def find_video_def prepare_video_media_existing)

theorem process_upload_conflict_witness:
  "process_upload (state_of [media1 PROCESS_STARTED ''/tmp/videos/1''] two_chunks)
     False 1 2 [7, 8] =
   (Inl (VideoMediaInvalidStatusException ''An upload is already in progress.''),
    state_of [media1 PROCESS_STARTED ''/tmp/videos/1''] two_chunks)"
proof -
  let ?busy = "state_of [media1 PROCESS_STARTED ''/tmp/videos/1''] two_chunks"
  have "videos ?busy 1 = Some video1" by (simp add: state_of_def)
  moreover have "video_media_of (media ?busy) 1 = Some (media1 PROCESS_STARTED ''/tmp/videos/1'')"
    by (simp add: state_of_def video_media_of_def media1_def)
  moreover have "status (media1 PROCESS_STARTED ''/tmp/videos/1'') = PROCESS_STARTED"
    by (simp add: media1_def)
  ultimately show ?thesis by (rule process_upload_conflict)
qed

lemma storage_chunk_writes:
  assumes "\<not> isfile fs (Path directory)"
    and "\<not> isdir fs (Join (Path directory) (chunk_name i))"
  shows "fst (storage_chunk fs directory i c) = Inr () \<and>
    resolve (snd (storage_chunk fs directory i c)) (Join (Path directory) (chunk_name i)) =
      Some (RegularFile c)"
proof (cases "fs directory")
  case None
  then show ?thesis
    by (simp add: storage_chunk_def path_exists_def makedirs_def)
next
  case (Some v)
  show ?thesis
  proof (cases v)
    case (RegularFile b)
    with Some assms(1) show ?thesis by (simp add: isfile_def)
  next
    case (Directory entries)
    with Some assms(2) show ?thesis
      by (auto simp: storage_chunk_def path_exists_def isdir_def update_conv'
          split: option.splits node.splits)
  qed
qed

text \<open>
  C3. For a record in \<open>PROCESS_FINISHED\<close>, a \<open>process_upload\<close> whose chunk can be written
  (the default directory is not a regular file, and the chunk's name is not a directory
  in it) succeeds, saves the record with the default chunk directory as its path and
  \<open>UPLOADED_STARTED\<close> as its status, saves the video unpublished, and leaves the chunk's
  bytes in the file of its index under the default directory.
\<close>

theorem process_upload_reupload:
  assumes "videos st vid = Some video"
    and "video_media_of (media st) vid = Some m"
    and "status m = PROCESS_FINISHED"
    and "\<not> isfile (disk st) (Path (get_chunk_directory vid))"
    and "\<not> isdir (disk st) (Join (Path (get_chunk_directory vid)) (chunk_name chunk_index))"
  shows "fst (process_upload st race vid chunk_index chunk) = Inr () \<and>
    video_media_of (media (snd (process_upload st race vid chunk_index chunk))) vid =
      Some (m\<lparr>video_path := get_chunk_directory vid, status := UPLOADED_STARTED\<rparr>) \<and>
    videos (snd (process_upload st race vid chunk_index chunk)) vid =
      Some (video\<lparr>is_published := False\<rparr>) \<and>
    resolve (disk (snd (process_upload st race vid chunk_index chunk)))
        (Join (Path (get_chunk_directory vid)) (chunk_name chunk_index)) =
      Some (RegularFile chunk)"
proof -
  let ?m' = "m\<lparr>video_path := get_chunk_directory vid, status := UPLOADED_STARTED\<rparr>"
  obtain fs1 where w: "storage_chunk (disk st) (get_chunk_directory vid) chunk_index chunk =
      (Inr (), fs1)"
    and r: "resolve fs1 (Join (Path (get_chunk_directory vid)) (chunk_name chunk_index)) =
      Some (RegularFile chunk)"
    using storage_chunk_writes [OF assms(4,5), of chunk]
    by (cases "storage_chunk (disk st) (get_chunk_directory vid) chunk_index chunk") auto
  have result: "process_upload st race vid chunk_index chunk =
      (Inr (), st\<lparr>videos := (videos st)(vid \<mapsto> video\<lparr>is_published := False\<rparr>),
                 media := save_media (media st) ?m', disk := fs1\<rparr>)"
    using assms(1-3) w
    by (simp add: process_upload_def find_video_def prepare_video_media_existing Let_def)
  from assms(2) have "video_id ?m' = vid" by (simp add: video_media_of_Some_id)
  with assms(2) have "video_media_of (save_media (media st) ?m') vid = Some ?m'"
    by (rule video_media_of_save_same)
  with result r show ?thesis by simp
qed

theorem process_upload_reupload_witness:
  "fst (process_upload (state_of [media1 PROCESS_FINISHED ''/media/final/1.mp4''] Map.empty)
     False 1 0 [7, 8]) = Inr () \<and>
   video_media_of (media (snd (process_upload
     (state_of [media1 PROCESS_FINISHED ''/media/final/1.mp4''] Map.empty)
     False 1 0 [7, 8]))) 1 = Some (media1 UPLOADED_STARTED ''/tmp/videos/1'') \<and>
   videos (snd (process_upload
     (state_of [media1 PROCESS_FINISHED ''/media/final/1.mp4''] Map.empty)
     False 1 0 [7, 8])) 1 = Some \<lparr>is_published = False\<rparr> \<and>
   resolve (disk (snd (process_upload
     (state_of [media1 PROCESS_FINISHED ''/media/final/1.mp4''] Map.empty)
     False 1 0 [7, 8]))) (Join (Path ''/tmp/videos/1'') ''0.chunk'') = Some (RegularFile [7, 8])"
proof -
  let ?done = "state_of [media1 PROCESS_FINISHED ''/media/final/1.mp4''] Map.empty"
  let ?m = "media1 PROCESS_FINISHED ''/media/final/1.mp4''"
  have v: "videos ?done 1 = Some video1" by (simp add: state_of_def)
  have r: "video_media_of (media ?done) 1 = Some ?m"
    by (simp add: state_of_def video_media_of_def media1_def)
  have s: "status ?m = PROCESS_FINISHED" by (simp add: media1_def)
  have f: "\<not> isfile (disk ?done) (Path (get_chunk_directory 1))"
    by (simp add: state_of_def isfile_def)
  have d: "\<not> isdir (disk ?done) (Join (Path (get_chunk_directory 1)) (chunk_name 0))"
    by (simp add: state_of_def isdir_def)
  from process_upload_reupload [OF v r s f d, of False "[7, 8]"]
  show ?thesis
    by (simp add: get_chunk_directory_1 chunk_name_0 media1_def video1_def)
qed

text \<open>
  C5. A submitted chunk longer than \<open>MAX_VIDEO_CHUNK_SIZE\<close> makes the form invalid with the
  error of \<open>clean_chunk\<close>; the view answers 400 without calling the service, so the state
  (records and files) is the one it was given.
\<close>

theorem oversized_chunk_rejected:
  assumes "chunk_file form = Some chunk"
    and "length chunk > MAX_VIDEO_CHUNK_SIZE"
  shows "do_upload_video_chunks st race vid form =
           (JsonResponse (FormErrors (form_errors form)) 400, st) \<and>
         (''chunk'', CleanChunkError) \<in> set (form_errors form)"
proof -
  from assms have "chunk_errors (chunk_file form) = [(''chunk'', CleanChunkError)]"
    by (auto simp: chunk_errors_def clean_chunk_def)
  then have "(''chunk'', CleanChunkError) \<in> set (form_errors form)"
    by (simp add: form_errors_def)
  moreover from this have "form_errors form \<noteq> []" by auto
  ultimately show ?thesis by (simp add: do_upload_video_chunks_def)
qed

theorem oversized_chunk_rejected_witness:
  "do_upload_video_chunks (state_of [] Map.empty) False 1
     \<lparr>chunk_file = Some (replicate (2 * 1024 * 1024) 0), chunkIndex = Some 0\<rparr> =
   (JsonResponse (FormErrors [(''chunk'', CleanChunkError)]) 400, state_of [] Map.empty)"
proof -
  let ?form = "\<lparr>chunk_file = Some (replicate (2 * 1024 * 1024) (0::8 word)), chunkIndex = Some 0\<rparr>"
  have c: "chunk_file ?form = Some (replicate (2 * 1024 * 1024) 0)" by simp
  have l: "length (replicate (2 * 1024 * 1024) (0::8 word)) > MAX_VIDEO_CHUNK_SIZE"
    by (simp add: MAX_VIDEO_CHUNK_SIZE_def)
  have e: "form_errors ?form = [(''chunk'', CleanChunkError)]"
    by (simp add: form_errors_def chunk_errors_def chunkIndex_errors_def clean_chunk_def
        MAX_VIDEO_CHUNK_SIZE_def)
  from oversized_chunk_rejected [OF c l, of "state_of [] Map.empty" False 1] e
  show ?thesis by simp
qed

text \<open>
  Without a record and without a concurrent creator, a \<open>process_upload\<close> whose chunk can
  be written appends the one new record, in \<open>UPLOADED_STARTED\<close> with the default chunk
  directory as its path, and the video has exactly that record.
\<close>

lemma video_media_of_None_iff:
  "video_media_of rows vid = None \<longleftrightarrow> (\<forall>r\<in>set rows. video_id r \<noteq> vid)"
  by (auto simp: video_media_of_def find_None_iff)

lemma process_upload_creates_one_record:
  assumes "videos st vid = Some video"
    and "video_media_of (media st) vid = None"
    and "\<not> isfile (disk st) (Path (get_chunk_directory vid))"
    and "\<not> isdir (disk st) (Join (Path (get_chunk_directory vid)) (chunk_name chunk_index))"
  shows "fst (process_upload st False vid chunk_index chunk) = Inr () \<and>
    media (snd (process_upload st False vid chunk_index chunk)) =
      media st @ [new_video_media vid] \<and>
    filter (\<lambda>r. video_id r = vid) (media (snd (process_upload st False vid chunk_index chunk))) =
      [new_video_media vid]"
proof -
  from assms(2) have none: "\<forall>r\<in>set (media st). video_id r \<noteq> vid"
    by (simp add: video_media_of_None_iff)
  then have "\<not> list_ex (\<lambda>r'. video_id r' = vid) (media st)"
    by (simp add: list_ex_iff)
  then have prep: "prepare_video_media (media st) False vid =
      (Inr (new_video_media vid), media st @ [new_video_media vid], media st)"
    using assms(2)
    by (simp add: prepare_video_media_def objects_create_def new_video_media_def Let_def)
  obtain fs1 where w: "storage_chunk (disk st) (get_chunk_directory vid) chunk_index chunk =
      (Inr (), fs1)"
    using storage_chunk_writes [OF assms(3,4), of chunk]
    by (cases "storage_chunk (disk st) (get_chunk_directory vid) chunk_index chunk") auto
  have result: "process_upload st False vid chunk_index chunk =
      (Inr (), st\<lparr>media := media st @ [new_video_media vid], disk := fs1\<rparr>)"
    using assms(1) prep w
    by (simp add: process_upload_def find_video_def new_video_media_def)
  from none have "filter (\<lambda>r. video_id r = vid) (media st) = []"
    by (simp add: filter_empty_conv)
  with result show ?thesis by (simp add: new_video_media_def)
qed

text \<open>
  C6, the creation race. When another creator commits the video's record between the
  failed lookup and the insert, \<open>create\<close> raises \<open>IntegrityError\<close> inside the atomic block
  of \<open>process_upload\<close>, which marks the transaction for rollback; the re-fetch in the
  \<open>except\<close> branch is then refused, and \<open>process_upload\<close> ends with
  \<open>TransactionManagementError\<close>. The table is left with the winner's record alone.
\<close>

theorem process_upload_creation_race:
  assumes "videos st vid = Some video"
    and "video_media_of (media st) vid = None"
  shows "process_upload st True vid chunk_index chunk =
    (Inl TransactionManagementError, st\<lparr>media := media st @ [new_video_media vid]\<rparr>)"
proof -
  have "list_ex (\<lambda>r'. video_id r' = vid) (media st @ [new_video_media vid])"
    by (simp add: list_ex_iff new_video_media_def)
  with assms(2) have "prepare_video_media (media st) True vid =
      (Inl TransactionManagementError, media st @ [new_video_media vid],
       media st @ [new_video_media vid])"
    by (simp add: prepare_video_media_def objects_create_def objects_get_def
        new_video_media_def Let_def)
  with assms(1) show ?thesis
    by (simp add: process_upload_def find_video_def)
qed

theorem process_upload_creation_race_witness:
  "process_upload (state_of [] Map.empty) True 1 0 [7, 8] =
   (Inl TransactionManagementError,
    state_of [media1 UPLOADED_STARTED ''/tmp/videos/1''] Map.empty)"
proof -
  have "videos (state_of [] Map.empty) 1 = Some video1" by (simp add: state_of_def)
  moreover have "video_media_of (media (state_of [] Map.empty)) 1 = None"
    by (simp add: state_of_def video_media_of_def)
  ultimately have "process_upload (state_of [] Map.empty) True 1 0 [7, 8] =
      (Inl TransactionManagementError,
       (state_of [] Map.empty)\<lparr>media := media (state_of [] Map.empty) @ [new_video_media 1]\<rparr>)"
    by (rule process_upload_creation_race)
  then show ?thesis
    by (simp add: state_of_def new_video_media_def media1_def get_chunk_directory_1)
qed

subsection \<open>The lifecycle\<close>

lemma prepare_video_media_create:
  assumes "video_media_of rows vid = None"
  shows "prepare_video_media rows False vid =
    (Inr (new_video_media vid), rows @ [new_video_media vid], rows)"
proof -
  from assms have "\<not> list_ex (\<lambda>r'. video_id r' = vid) rows"
    by (simp add: video_media_of_None_iff list_ex_iff)
  with assms show ?thesis
    by (simp add: prepare_video_media_def objects_create_def new_video_media_def Let_def)
qed

lemma prepare_video_media_race:
  assumes "video_media_of rows vid = None"
  shows "prepare_video_media rows True vid =
    (Inl TransactionManagementError, rows @ [new_video_media vid], rows @ [new_video_media vid])"
proof -
  have "list_ex (\<lambda>r'. video_id r' = vid) (rows @ [new_video_media vid])"
    by (simp add: list_ex_iff new_video_media_def)
  with assms show ?thesis
    by (simp add: prepare_video_media_def objects_create_def objects_get_def
        new_video_media_def Let_def)
qed

text \<open>What \<open>process_upload\<close> can do to the table of records.\<close>

lemma process_upload_media:
  "media (snd (process_upload st race vid chunk_index chunk)) = media st \<or>
   (video_media_of (media st) vid = None \<and>
    media (snd (process_upload st race vid chunk_index chunk)) =
      media st @ [new_video_media vid]) \<or>
   (\<exists>m m'. video_media_of (media st) vid = Some m \<and>
      status m \<noteq> UPLOADED_STARTED \<and> status m \<noteq> PROCESS_STARTED \<and>
      video_id m' = vid \<and> status m' = UPLOADED_STARTED \<and>
      media (snd (process_upload st race vid chunk_index chunk)) = save_media (media st) m')"
proof (cases "videos st vid")
  case None
  then show ?thesis by (simp add: process_upload_def find_video_def)
next
  case (Some video)
  show ?thesis
  proof (cases "video_media_of (media st) vid")
    case None
    show ?thesis
    proof (cases race)
      case True
      with Some None show ?thesis
        by (simp add: process_upload_def find_video_def prepare_video_media_race)
    next
      case False
      obtain r fs1 where w:
        "storage_chunk (disk st) (get_chunk_directory vid) chunk_index chunk = (r, fs1)"
        by (cases "storage_chunk (disk st) (get_chunk_directory vid) chunk_index chunk")
      with Some None False show ?thesis
        by (cases r)
          (simp_all add: process_upload_def find_video_def prepare_video_media_create
            new_video_media_def)
    qed
  next
    case found: (Some m)
    then have id: "video_id m = vid" by (rule video_media_of_Some_id)
    consider "status m = PROCESS_STARTED" | "status m = UPLOADED_STARTED"
      | "status m \<noteq> PROCESS_STARTED" "status m \<noteq> UPLOADED_STARTED"
      by blast
    then show ?thesis
    proof cases
      case 1
      with Some found show ?thesis
        by (simp add: process_upload_def find_video_def prepare_video_media_existing)
    next
      case 2
      obtain r fs1 where
        "storage_chunk (disk st) (video_path m) chunk_index chunk = (r, fs1)"
        by (cases "storage_chunk (disk st) (video_path m) chunk_index chunk")
      with Some found 2 show ?thesis
        by (cases r)
          (simp_all add: process_upload_def find_video_def prepare_video_media_existing)
    next
      case 3
      let ?m1 = "if status m = PROCESS_FINISHED then m\<lparr>video_path := get_chunk_directory vid\<rparr>
        else m"
      let ?m2 = "?m1\<lparr>status := UPLOADED_STARTED\<rparr>"
      obtain r fs1 where
        "storage_chunk (disk st) (video_path ?m2) chunk_index chunk = (r, fs1)"
        by (cases "storage_chunk (disk st) (video_path ?m2) chunk_index chunk")
      with Some found 3 have "media (snd (process_upload st race vid chunk_index chunk)) = media st \<or>
          media (snd (process_upload st race vid chunk_index chunk)) = save_media (media st) ?m2"
        by (cases r)
          (simp_all add: process_upload_def find_video_def prepare_video_media_existing Let_def)
      moreover have "video_id ?m2 = vid" "status ?m2 = UPLOADED_STARTED"
        using id by simp_all
      ultimately show ?thesis using found 3 by blast
    qed
  qed
qed

lemma finalize_upload_media:
  "media (snd (finalize_upload st vid n)) = media st \<or>
   (\<exists>m. video_media_of (media st) vid = Some m \<and> status m = UPLOADED_STARTED \<and>
      media (snd (finalize_upload st vid n)) =
        save_media (media st) (m\<lparr>status := PROCESS_STARTED\<rparr>))"
  by (simp add: finalize_upload_def find_video_def split: option.splits)

lemma register_processed_video_path_media:
  "media (snd (register_processed_video_path st vid vpath)) = media st \<or>
   (\<exists>m. video_media_of (media st) vid = Some m \<and> status m = PROCESS_STARTED \<and>
      media (snd (register_processed_video_path st vid vpath)) =
        save_media (media st) (m\<lparr>video_path := vpath, status := PROCESS_FINISHED\<rparr>))"
  by (simp add: register_processed_video_path_def find_video_def split: option.splits)

lemma upload_chunks_to_external_storage_database:
  "media (fst (snd (upload_chunks_to_external_storage st vid))) = media st \<and>
   videos (fst (snd (upload_chunks_to_external_storage st vid))) = videos st"
  by (simp add: upload_chunks_to_external_storage_def find_video_def Let_def
      split: option.splits prod.splits)

lemma video_media_of_append:
  "video_media_of (rows @ [r]) v =
     (case video_media_of rows v of
        Some m \<Rightarrow> Some m
      | None \<Rightarrow> if video_id r = v then Some r else None)"
  unfolding video_media_of_def by (induction rows) auto

lemma status_of_append:
  assumes "video_media_of rows vid = None"
  shows "map_option status (video_media_of (rows @ [new_video_media vid]) v) =
    (if v = vid then Some UPLOADED_STARTED else map_option status (video_media_of rows v))"
  using assms
  by (simp add: video_media_of_append new_video_media_def split: option.splits)

lemma status_of_save:
  assumes "video_media_of rows vid = Some m" and "video_id m' = vid"
  shows "map_option status (video_media_of (save_media rows m') v) =
    (if v = vid then Some (status m') else map_option status (video_media_of rows v))"
  using assms
  by (simp add: video_media_of_save_same video_media_of_save_other)

lemma set_save_media: "set (save_media rows m) \<subseteq> insert m (set rows)"
  by (auto simp: save_media_def)

text \<open>No operation of the service stores the status \<open>UPLOAD_STARTED\<close>.\<close>

lemma reachable_statuses:
  assumes "reachable st"
  shows "\<forall>r\<in>set (media st). status r \<noteq> UPLOAD_STARTED"
  using assms
proof (induction rule: reachable.induct)
  case (initial st)
  then show ?case by simp
next
  case (upload st race vid chunk_index chunk)
  from process_upload_media [of st race vid chunk_index chunk] show ?case
  proof (elim disjE conjE exE)
    assume "media (snd (process_upload st race vid chunk_index chunk)) = media st"
    with upload.IH show ?thesis by simp
  next
    assume "media (snd (process_upload st race vid chunk_index chunk)) =
      media st @ [new_video_media vid]"
    with upload.IH show ?thesis by (simp add: new_video_media_def)
  next
    fix m m'
    assume "status m' = UPLOADED_STARTED"
      and "media (snd (process_upload st race vid chunk_index chunk)) = save_media (media st) m'"
    with upload.IH set_save_media [of "media st" m'] show ?thesis by auto
  qed
next
  case (finalize st vid total_chunks)
  from finalize_upload_media [of st vid total_chunks] show ?case
  proof (elim disjE conjE exE)
    assume "media (snd (finalize_upload st vid total_chunks)) = media st"
    with finalize.IH show ?thesis by simp
  next
    fix m
    assume "media (snd (finalize_upload st vid total_chunks)) =
      save_media (media st) (m\<lparr>status := PROCESS_STARTED\<rparr>)"
    with finalize.IH set_save_media [of "media st" "m\<lparr>status := PROCESS_STARTED\<rparr>"]
    show ?thesis by auto
  qed
next
  case (relocate st vid)
  then show ?case by (simp add: upload_chunks_to_external_storage_database)
next
  case (register st vid vpath)
  from register_processed_video_path_media [of st vid vpath] show ?case
  proof (elim disjE conjE exE)
    assume "media (snd (register_processed_video_path st vid vpath)) = media st"
    with register.IH show ?thesis by simp
  next
    fix m
    assume "media (snd (register_processed_video_path st vid vpath)) =
      save_media (media st) (m\<lparr>video_path := vpath, status := PROCESS_FINISHED\<rparr>)"
    with register.IH
      set_save_media [of "media st" "m\<lparr>video_path := vpath, status := PROCESS_FINISHED\<rparr>"]
    show ?thesis by auto
  qed
qed

lemma video_media_of_in_set: "video_media_of rows vid = Some m \<Longrightarrow> m \<in> set rows"
  by (auto simp: video_media_of_def find_Some_iff)

lemma process_upload_status:
  assumes "\<forall>r\<in>set (media st). status r \<noteq> UPLOAD_STARTED"
  shows "status_of (snd (process_upload st race vid chunk_index chunk)) v = status_of st v \<or>
    (status_of st v = None \<or> status_of st v = Some PROCESS_FINISHED) \<and>
    status_of (snd (process_upload st race vid chunk_index chunk)) v = Some UPLOADED_STARTED"
  using process_upload_media [of st race vid chunk_index chunk]
proof (elim disjE conjE exE)
  assume "media (snd (process_upload st race vid chunk_index chunk)) = media st"
  then show ?thesis by (simp add: status_of_def)
next
  assume "video_media_of (media st) vid = None"
    and "media (snd (process_upload st race vid chunk_index chunk)) =
      media st @ [new_video_media vid]"
  then show ?thesis by (simp add: status_of_def status_of_append)
next
  fix m m'
  assume found: "video_media_of (media st) vid = Some m"
    and s: "status m \<noteq> UPLOADED_STARTED" "status m \<noteq> PROCESS_STARTED"
    and m': "video_id m' = vid" "status m' = UPLOADED_STARTED"
    and saved: "media (snd (process_upload st race vid chunk_index chunk)) =
      save_media (media st) m'"
  from found assms have "status m \<noteq> UPLOAD_STARTED"
    by (auto dest: video_media_of_in_set)
  with s have "status m = PROCESS_FINISHED" by (cases "status m") simp_all
  with found m' saved show ?thesis
    by (simp add: status_of_def status_of_save)
qed

lemma finalize_upload_status:
  "status_of (snd (finalize_upload st vid n)) v = status_of st v \<or>
   status_of st v = Some UPLOADED_STARTED \<and>
   status_of (snd (finalize_upload st vid n)) v = Some PROCESS_STARTED"
  using finalize_upload_media [of st vid n]
proof (elim disjE conjE exE)
  assume "media (snd (finalize_upload st vid n)) = media st"
  then show ?thesis by (simp add: status_of_def)
next
  fix m
  assume found: "video_media_of (media st) vid = Some m" and "status m = UPLOADED_STARTED"
    and "media (snd (finalize_upload st vid n)) =
      save_media (media st) (m\<lparr>status := PROCESS_STARTED\<rparr>)"
  moreover from found have "video_id (m\<lparr>status := PROCESS_STARTED\<rparr>) = vid"
    by (simp add: video_media_of_Some_id)
  ultimately show ?thesis
    by (simp add: status_of_def status_of_save)
qed

lemma register_processed_video_path_status:
  "status_of (snd (register_processed_video_path st vid vpath)) v = status_of st v \<or>
   status_of st v = Some PROCESS_STARTED \<and>
   status_of (snd (register_processed_video_path st vid vpath)) v = Some PROCESS_FINISHED"
  using register_processed_video_path_media [of st vid vpath]
proof (elim disjE conjE exE)
  assume "media (snd (register_processed_video_path st vid vpath)) = media st"
  then show ?thesis by (simp add: status_of_def)
next
  fix m
  assume found: "video_media_of (media st) vid = Some m" and "status m = PROCESS_STARTED"
    and "media (snd (register_processed_video_path st vid vpath)) =
      save_media (media st) (m\<lparr>video_path := vpath, status := PROCESS_FINISHED\<rparr>)"
  moreover from found
  have "video_id (m\<lparr>video_path := vpath, status := PROCESS_FINISHED\<rparr>) = vid"
    by (simp add: video_media_of_Some_id)
  ultimately show ?thesis
    by (simp add: status_of_def status_of_save)
qed

text \<open>
  C7. In a reachable state, whatever the arguments and for every video, each operation
  leaves the status as it is or moves it along an edge of the lifecycle:
  \<open>process_upload\<close> only from no record or from \<open>PROCESS_FINISHED\<close> to \<open>UPLOADED_STARTED\<close>,
  \<open>finalize_upload\<close> only from \<open>UPLOADED_STARTED\<close> to \<open>PROCESS_STARTED\<close>,
  \<open>register_processed_video_path\<close> only from \<open>PROCESS_STARTED\<close> to \<open>PROCESS_FINISHED\<close>, and
  \<open>upload_chunks_to_external_storage\<close> not at all.
\<close>

theorem status_moves_along_edges:
  assumes "reachable st"
  shows
    "(status_of (snd (process_upload st race vid chunk_index chunk)) v = status_of st v \<or>
      edge (status_of st v) (status_of (snd (process_upload st race vid chunk_index chunk)) v) \<and>
      status_of (snd (process_upload st race vid chunk_index chunk)) v = Some UPLOADED_STARTED) \<and>
     (status_of (snd (finalize_upload st vid total_chunks)) v = status_of st v \<or>
      edge (status_of st v) (status_of (snd (finalize_upload st vid total_chunks)) v) \<and>
      status_of (snd (finalize_upload st vid total_chunks)) v = Some PROCESS_STARTED) \<and>
     (status_of (snd (register_processed_video_path st vid vpath)) v = status_of st v \<or>
      edge (status_of st v) (status_of (snd (register_processed_video_path st vid vpath)) v) \<and>
      status_of (snd (register_processed_video_path st vid vpath)) v = Some PROCESS_FINISHED) \<and>
     status_of (fst (snd (upload_chunks_to_external_storage st vid))) v = status_of st v"
proof (intro conjI)
  from assms have inv: "\<forall>r\<in>set (media st). status r \<noteq> UPLOAD_STARTED"
    by (rule reachable_statuses)
  from process_upload_status [OF inv, of race vid chunk_index chunk v]
  show "status_of (snd (process_upload st race vid chunk_index chunk)) v = status_of st v \<or>
      edge (status_of st v) (status_of (snd (process_upload st race vid chunk_index chunk)) v) \<and>
      status_of (snd (process_upload st race vid chunk_index chunk)) v = Some UPLOADED_STARTED"
    by (auto simp: edge_def)
  from finalize_upload_status [of st vid total_chunks v]
  show "status_of (snd (finalize_upload st vid total_chunks)) v = status_of st v \<or>
      edge (status_of st v) (status_of (snd (finalize_upload st vid total_chunks)) v) \<and>
      status_of (snd (finalize_upload st vid total_chunks)) v = Some PROCESS_STARTED"
    by (auto simp: edge_def)
  from register_processed_video_path_status [of st vid vpath v]
  show "status_of (snd (register_processed_video_path st vid vpath)) v = status_of st v \<or>
      edge (status_of st v) (status_of (snd (register_processed_video_path st vid vpath)) v) \<and>
      status_of (snd (register_processed_video_path st vid vpath)) v = Some PROCESS_FINISHED"
    by (auto simp: edge_def)
  show "status_of (fst (snd (upload_chunks_to_external_storage st vid))) v = status_of st v"
    by (simp add: status_of_def upload_chunks_to_external_storage_database)
qed

theorem status_moves_along_edges_witness:
  "reachable (state_of [] Map.empty) \<and>
   status_of (state_of [] Map.empty) 1 = None \<and>
   status_of (snd (process_upload (state_of [] Map.empty) False 1 0 [7, 8])) 1 =
     Some UPLOADED_STARTED \<and>
   edge (status_of (state_of [] Map.empty) 1)
     (status_of (snd (process_upload (state_of [] Map.empty) False 1 0 [7, 8])) 1)"
proof -
  let ?st = "state_of [] Map.empty"
  have r: "reachable ?st"
    by (rule reachable.initial) (simp add: state_of_def)
  have before: "status_of ?st 1 = None"
    by (simp add: status_of_def state_of_def video_media_of_def)
  have v: "videos ?st 1 = Some video1" by (simp add: state_of_def)
  have n: "video_media_of (media ?st) 1 = None"
    by (simp add: state_of_def video_media_of_def)
  have f: "\<not> isfile (disk ?st) (Path (get_chunk_directory 1))"
    by (simp add: state_of_def isfile_def)
  have d: "\<not> isdir (disk ?st) (Join (Path (get_chunk_directory 1)) (chunk_name 0))"
    by (simp add: state_of_def isdir_def)
  from process_upload_creates_one_record [OF v n f d, of "[7, 8]"]
  have after: "status_of (snd (process_upload ?st False 1 0 [7, 8])) 1 = Some UPLOADED_STARTED"
    by (simp add: status_of_def video_media_of_append new_video_media_def n)
  from status_moves_along_edges [OF r, of False 1 0 "[7, 8]" 1] before after
  have "edge (status_of ?st 1) (status_of (snd (process_upload ?st False 1 0 [7, 8])) 1)"
    by auto
  with r before after show ?thesis by blast
qed

subsection \<open>Relocating the chunks\<close>

lemma shutil_move_explicit:
  assumes "fs s = Some (Directory es)" and "map_of es n = Some v" and "s \<noteq> d"
  shows "shutil_move fs (Join (Path s) n) (Join (Path d) n) =
    (case fs d of
       None \<Rightarrow> Inl FileNotFoundError
     | Some (RegularFile _) \<Rightarrow> Inl NotADirectoryError
     | Some (Directory ed) \<Rightarrow>
         (case map_of ed n of
            Some (Directory sub) \<Rightarrow>
              if map_of sub n \<noteq> None then Inl ShutilError
              else Inr (fs(s \<mapsto> Directory (AList.delete n es),
                           d \<mapsto> Directory (AList.update n
                                  (Directory (AList.update n v sub)) ed)))
          | _ \<Rightarrow> Inr (fs(s \<mapsto> Directory (AList.delete n es),
                         d \<mapsto> Directory (AList.update n v ed)))))"
  using assms
  by (simp add: shutil_move_def isdir_def path_exists_def
      split: option.splits node.splits)

lemma isfile_Join_Path:
  "isfile fs (Join (Path s) n) \<longleftrightarrow>
     (\<exists>es b. fs s = Some (Directory es) \<and> map_of es n = Some (RegularFile b))"
  by (auto simp: isfile_def split: option.splits node.splits)

lemma shutil_move_succeeds_iff:
  assumes "s \<noteq> d" and "isfile fs (Join (Path s) n)"
  shows "(\<exists>fs1. shutil_move fs (Join (Path s) n) (Join (Path d) n) = Inr fs1) \<longleftrightarrow>
    isdir fs (Path d) \<and> \<not> path_exists fs (Join (Join (Path d) n) n)"
proof -
  from assms(2) obtain es b where "fs s = Some (Directory es)"
    "map_of es n = Some (RegularFile b)"
    by (auto simp: isfile_Join_Path)
  from shutil_move_explicit [of fs s es n "RegularFile b" d, OF this assms(1)] show ?thesis
    by (auto simp: isdir_def path_exists_def split: option.splits node.splits)
qed

lemma shutil_move_effect:
  assumes "s \<noteq> d" and "isfile fs (Join (Path s) n)"
    and "shutil_move fs (Join (Path s) n) (Join (Path d) n) = Inr fs1"
  shows "\<forall>m. m \<noteq> n \<longrightarrow> resolve fs1 (Join (Path s) m) = resolve fs (Join (Path s) m)"
    and "\<forall>m. m \<noteq> n \<longrightarrow> resolve fs1 (Join (Path d) m) = resolve fs (Join (Path d) m)"
    and "relocated fs fs1 s d n"
    and "isdir fs (Path d)" and "isdir fs1 (Path d)"
proof -
  from assms(2) obtain es b where src: "fs s = Some (Directory es)"
    "map_of es n = Some (RegularFile b)"
    by (auto simp: isfile_Join_Path)
  note ex = shutil_move_explicit [of fs s es n "RegularFile b" d, OF src assms(1)]
  show "\<forall>m. m \<noteq> n \<longrightarrow> resolve fs1 (Join (Path s) m) = resolve fs (Join (Path s) m)"
    using ex assms(1,3) src
    by (auto simp: delete_conv' split: option.splits node.splits if_splits)
  show "\<forall>m. m \<noteq> n \<longrightarrow> resolve fs1 (Join (Path d) m) = resolve fs (Join (Path d) m)"
    using ex assms(1,3) src
    by (auto simp: update_conv' split: option.splits node.splits if_splits)
  show "relocated fs fs1 s d n"
    using ex assms(1,3) src
    by (auto simp: relocated_def isdir_def update_conv' delete_conv'
        split: option.splits node.splits if_splits)
  show "isdir fs (Path d)" "isdir fs1 (Path d)"
    using ex assms(1,3) src
    by (auto simp: isdir_def split: option.splits node.splits if_splits)
qed

text \<open>The body of the loop.\<close>

lemma move_file_frame:
  assumes "s \<noteq> d" and "m \<noteq> n"
  shows "resolve (fst (move_file fs s d n)) (Join (Path s) m) = resolve fs (Join (Path s) m)"
    and "resolve (fst (move_file fs s d n)) (Join (Path d) m) = resolve fs (Join (Path d) m)"
  using assms shutil_move_effect(1,2) [of s d fs n]
  by (auto simp: move_file_def Let_def split: sum.splits)

lemma move_file_isdir:
  assumes "s \<noteq> d"
  shows "isdir (fst (move_file fs s d n)) (Path d) = isdir fs (Path d)"
  using assms shutil_move_effect(4,5) [of s d fs n]
  by (auto simp: move_file_def Let_def split: sum.splits)

lemma move_file_not_a_file:
  "\<not> isfile fs (Join (Path s) n) \<Longrightarrow> move_file fs s d n = (fs, NotAFile n)"
  by (simp add: move_file_def)

lemma move_file_moved:
  assumes "s \<noteq> d" and "isfile fs (Join (Path s) n)"
    and "isdir fs (Path d)" and "\<not> path_exists fs (Join (Join (Path d) n) n)"
  shows "snd (move_file fs s d n) = Moved n \<and> relocated fs (fst (move_file fs s d n)) s d n"
proof -
  from shutil_move_succeeds_iff [OF assms(1,2)] assms(3,4)
  obtain fs1 where ok: "shutil_move fs (Join (Path s) n) (Join (Path d) n) = Inr fs1"
    by blast
  with assms(2) have "move_file fs s d n = (fs1, Moved n)"
    by (simp add: move_file_def)
  with shutil_move_effect(3) [OF assms(1,2) ok] show ?thesis by simp
qed

lemma move_file_error:
  assumes "s \<noteq> d" and "isfile fs (Join (Path s) n)"
    and "\<not> (isdir fs (Path d) \<and> \<not> path_exists fs (Join (Join (Path d) n) n))"
  shows "\<exists>e. move_file fs s d n = (fs, MoveError n e)"
proof -
  from shutil_move_succeeds_iff [OF assms(1,2)] assms(3)
  obtain e where "shutil_move fs (Join (Path s) n) (Join (Path d) n) = Inl e"
    by (cases "shutil_move fs (Join (Path s) n) (Join (Path d) n)") auto
  with assms(2) show ?thesis by (simp add: move_file_def)
qed

lemma move_loop_Cons:
  "fst (move_loop fs s d (n # rest)) = fst (move_loop (fst (move_file fs s d n)) s d rest)"
  "snd (move_loop fs s d (n # rest)) =
     snd (move_file fs s d n) # snd (move_loop (fst (move_file fs s d n)) s d rest)"
  by (simp_all add: split_beta)

lemma move_file_subject: "subject (snd (move_file fs s d n)) = n"
  by (simp add: move_file_def Let_def split: sum.splits)

lemma move_loop_subjects: "map subject (snd (move_loop fs s d names)) = names"
  by (induction names arbitrary: fs) (simp_all add: split_beta move_file_subject)

lemma move_loop_frame:
  assumes "s \<noteq> d" and "m \<notin> set names"
  shows "resolve (fst (move_loop fs s d names)) (Join (Path s) m) = resolve fs (Join (Path s) m)"
    and "resolve (fst (move_loop fs s d names)) (Join (Path d) m) = resolve fs (Join (Path d) m)"
  using assms
  by (induction names arbitrary: fs)
    (simp_all add: split_beta move_file_frame del: resolve.simps)

lemma move_loop_isdir:
  assumes "s \<noteq> d"
  shows "isdir (fst (move_loop fs s d names)) (Path d) = isdir fs (Path d)"
  using assms
  by (induction names arbitrary: fs) (simp_all add: split_beta move_file_isdir)

lemma resolve_Join_cong:
  "resolve a p = resolve b p \<Longrightarrow> resolve a (Join p n) = resolve b (Join p n)"
  by simp

lemma isfile_cong: "resolve a p = resolve b p \<Longrightarrow> isfile a p = isfile b p"
  by (simp add: isfile_def)

lemma isdir_cong: "resolve a p = resolve b p \<Longrightarrow> isdir a p = isdir b p"
  by (simp add: isdir_def)

lemma path_exists_cong: "resolve a p = resolve b p \<Longrightarrow> path_exists a p = path_exists b p"
  by (simp add: path_exists_def)

lemma relocated_before:
  assumes "relocated fs1 fs2 s d n"
    and "resolve fs1 (Join (Path s) n) = resolve fs (Join (Path s) n)"
    and "resolve fs1 (Join (Path d) n) = resolve fs (Join (Path d) n)"
  shows "relocated fs fs2 s d n"
  using assms isdir_cong [OF assms(3)]
  by (auto simp: relocated_def simp del: resolve.simps split: if_splits)

lemma relocated_after:
  assumes "relocated fs fs1 s d n"
    and "resolve fs2 (Join (Path s) n) = resolve fs1 (Join (Path s) n)"
    and "resolve fs2 (Join (Path d) n) = resolve fs1 (Join (Path d) n)"
  shows "relocated fs fs2 s d n"
  using assms resolve_Join_cong [OF assms(3), of n]
  by (auto simp: relocated_def simp del: resolve.simps split: if_splits)

lemma move_loop_outcome:
  assumes "s \<noteq> d" and "distinct names" and "n \<in> set names"
  shows
    "(\<not> isfile fs (Join (Path s) n) \<longrightarrow>
        NotAFile n \<in> set (snd (move_loop fs s d names)) \<and>
        resolve (fst (move_loop fs s d names)) (Join (Path s) n) =
          resolve fs (Join (Path s) n)) \<and>
     (isfile fs (Join (Path s) n) \<and> isdir fs (Path d) \<and>
      \<not> path_exists fs (Join (Join (Path d) n) n) \<longrightarrow>
        Moved n \<in> set (snd (move_loop fs s d names)) \<and>
        relocated fs (fst (move_loop fs s d names)) s d n) \<and>
     (isfile fs (Join (Path s) n) \<and>
      \<not> (isdir fs (Path d) \<and> \<not> path_exists fs (Join (Join (Path d) n) n)) \<longrightarrow>
        (\<exists>e. MoveError n e \<in> set (snd (move_loop fs s d names))) \<and>
        resolve (fst (move_loop fs s d names)) (Join (Path s) n) =
          resolve fs (Join (Path s) n))"
  using assms(2,3)
proof (induction names arbitrary: fs)
  case Nil
  then show ?case by simp
next
  case (Cons a rest)
  let ?fs1 = "fst (move_file fs s d a)"
  let ?fs2 = "fst (move_loop ?fs1 s d rest)"
  have fs2: "fst (move_loop fs s d (a # rest)) = ?fs2"
    and out: "snd (move_loop fs s d (a # rest)) =
      snd (move_file fs s d a) # snd (move_loop ?fs1 s d rest)"
    by (rule move_loop_Cons)+
  show ?case
  proof (cases "n = a")
    case True
    with Cons.prems have fresh: "n \<notin> set rest" by simp
    have later_s: "resolve ?fs2 (Join (Path s) n) = resolve ?fs1 (Join (Path s) n)"
      and later_d: "resolve ?fs2 (Join (Path d) n) = resolve ?fs1 (Join (Path d) n)"
      using move_loop_frame [OF assms(1) fresh] by blast+
    have "NotAFile n \<in> set (snd (move_loop fs s d (a # rest))) \<and>
        resolve ?fs2 (Join (Path s) n) = resolve fs (Join (Path s) n)"
      if "\<not> isfile fs (Join (Path s) n)"
      using move_file_not_a_file [OF that, of d] later_s True out by simp
    moreover have "Moved n \<in> set (snd (move_loop fs s d (a # rest))) \<and>
        relocated fs ?fs2 s d n"
      if "isfile fs (Join (Path s) n)" "isdir fs (Path d)"
        "\<not> path_exists fs (Join (Join (Path d) n) n)"
    proof -
      from move_file_moved [OF assms(1) that]
      have m: "snd (move_file fs s d n) = Moved n"
        and r: "relocated fs (fst (move_file fs s d n)) s d n" by blast+
      from r later_s later_d True have "relocated fs ?fs2 s d n"
        by (auto intro: relocated_after)
      with m True out show ?thesis by simp
    qed
    moreover have "(\<exists>e. MoveError n e \<in> set (snd (move_loop fs s d (a # rest)))) \<and>
        resolve ?fs2 (Join (Path s) n) = resolve fs (Join (Path s) n)"
      if "isfile fs (Join (Path s) n)"
        "\<not> (isdir fs (Path d) \<and> \<not> path_exists fs (Join (Join (Path d) n) n))"
    proof -
      from move_file_error [OF assms(1) that]
      obtain e where "move_file fs s d n = (fs, MoveError n e)" by blast
      with later_s True out show ?thesis by auto
    qed
    ultimately show ?thesis unfolding fs2 by blast
  next
    case False
    with Cons.prems have d: "distinct rest" and n: "n \<in> set rest" by simp_all
    note IH = Cons.IH [OF d n, of ?fs1]
    have same_s: "resolve ?fs1 (Join (Path s) n) = resolve fs (Join (Path s) n)"
      and same_d: "resolve ?fs1 (Join (Path d) n) = resolve fs (Join (Path d) n)"
      using move_file_frame [OF assms(1) False] by blast+
    have regular: "isfile ?fs1 (Join (Path s) n) = isfile fs (Join (Path s) n)"
      by (rule isfile_cong [OF same_s])
    have dir: "isdir ?fs1 (Path d) = isdir fs (Path d)"
      by (rule move_file_isdir [OF assms(1)])
    have clash: "path_exists ?fs1 (Join (Join (Path d) n) n) =
        path_exists fs (Join (Join (Path d) n) n)"
      by (rule path_exists_cong [OF resolve_Join_cong [OF same_d]])
    have rel: "relocated fs ?fs2 s d n" if "relocated ?fs1 ?fs2 s d n"
      using that same_s same_d by (rule relocated_before)
    from IH show ?thesis
      unfolding fs2 out regular dir clash same_s
      using rel by auto
  qed
qed

text \<open>No move removes one of the places the file system names.\<close>

lemma put_keeps_roots: "x \<in> dom fs \<Longrightarrow> x \<in> dom (put fs p v)"
  by (induction p arbitrary: v) (auto split: option.splits node.splits)

lemma unlink_keeps_roots: "x \<in> dom fs \<Longrightarrow> x \<in> dom (unlink fs (Join p n))"
  using put_keeps_roots [of x fs p]
  by (simp split: option.splits node.splits)

lemma rename_keeps_roots:
  assumes "rename fs (Join p n) dst = Inr fs1" and "x \<in> dom fs"
  shows "x \<in> dom fs1"
proof -
  from assms(2) have "x \<in> dom (unlink fs (Join p n))" by (rule unlink_keeps_roots)
  then have "x \<in> dom (put (unlink fs (Join p n)) dst v)" for v by (rule put_keeps_roots)
  with assms(1) show ?thesis
    by (cases dst) (auto simp del: unlink.simps put.simps resolve.simps
        split: option.splits node.splits)
qed

lemma move_file_keeps_roots:
  assumes "x \<in> dom fs"
  shows "x \<in> dom (fst (move_file fs s d n))"
proof (cases "isfile fs (Join (Path s) n)")
  case False
  with assms show ?thesis by (simp add: move_file_def)
next
  case True
  show ?thesis
  proof (cases "shutil_move fs (Join (Path s) n) (Join (Path d) n)")
    case (Inl e)
    with True assms show ?thesis by (simp add: move_file_def)
  next
    case (Inr fs1)
    then have "\<exists>dst. rename fs (Join (Path s) n) dst = Inr fs1"
      by (auto simp: shutil_move_def Let_def simp del: rename.simps split: if_splits)
    with assms have "x \<in> dom fs1" by (auto dest: rename_keeps_roots)
    with True Inr show ?thesis by (simp add: move_file_def)
  qed
qed

lemma move_loop_keeps_roots:
  "x \<in> dom fs \<Longrightarrow> x \<in> dom (fst (move_loop fs s d names))"
  by (induction names arbitrary: fs) (simp_all add: split_beta move_file_keeps_roots)

lemma path_exists_root: "path_exists fs (Path x) \<longleftrightarrow> x \<in> dom fs"
  by (auto simp: path_exists_def)

text \<open>
  \<open>move_chunks\<close> before its loop: the destination is created when it is absent, and the
  names of the source are listed.
\<close>

lemma move_chunks_unfold:
  assumes "resolve fs (Path s) = Some (Directory entries)"
  shows "move_chunks fs s d =
    (Inr (),
     move_loop (if fs d = None then fs(d \<mapsto> Directory []) else fs) s d
       (remdups (map fst entries)))"
  using assms
  by (auto simp: move_chunks_def path_exists_def makedirs_def listdir_def split_beta)

text \<open>
  C9. For a source that is a directory, \<open>move_chunks\<close> returns without raising, the
  destination exists afterwards, and one message is printed for every name of the
  source, in the order of \<open>listdir\<close>. When the destination is another place than the
  source, it is a directory afterwards unless it was a regular file, and the message and
  the fate of each name are these. A name that is not a regular file gets the message
  that it is not a file and stays where it is. A regular file whose move can succeed
  (the destination is not a regular file, and holds no directory of the file's name that
  already has an entry of that name) is reported moved and is relocated. A regular file
  whose move fails gets the error message and stays in the source. What happens to one
  name depends on the file system before the call alone: a failure changes nothing for
  the names after it.
\<close>

theorem move_chunks_best_effort:
  assumes "resolve fs (Path source_path) = Some (Directory entries)"
  shows
    "fst (move_chunks fs source_path dest_path) = Inr () \<and>
     path_exists (fst (snd (move_chunks fs source_path dest_path))) (Path dest_path) \<and>
     map subject (snd (snd (move_chunks fs source_path dest_path))) =
       remdups (map fst entries) \<and>
     (source_path \<noteq> dest_path \<longrightarrow>
        isdir (fst (snd (move_chunks fs source_path dest_path))) (Path dest_path) =
          (\<not> isfile fs (Path dest_path)) \<and>
        (\<forall>n\<in>set (map fst entries).
           (\<not> isfile fs (Join (Path source_path) n) \<longrightarrow>
              NotAFile n \<in> set (snd (snd (move_chunks fs source_path dest_path))) \<and>
              resolve (fst (snd (move_chunks fs source_path dest_path)))
                  (Join (Path source_path) n) =
                resolve fs (Join (Path source_path) n)) \<and>
           (isfile fs (Join (Path source_path) n) \<and> \<not> isfile fs (Path dest_path) \<and>
            \<not> path_exists fs (Join (Join (Path dest_path) n) n) \<longrightarrow>
              Moved n \<in> set (snd (snd (move_chunks fs source_path dest_path))) \<and>
              relocated fs (fst (snd (move_chunks fs source_path dest_path)))
                source_path dest_path n) \<and>
           (isfile fs (Join (Path source_path) n) \<and>
            (isfile fs (Path dest_path) \<or>
             path_exists fs (Join (Join (Path dest_path) n) n)) \<longrightarrow>
              (\<exists>e. MoveError n e \<in>
                 set (snd (snd (move_chunks fs source_path dest_path)))) \<and>
              resolve (fst (snd (move_chunks fs source_path dest_path)))
                  (Join (Path source_path) n) =
                resolve fs (Join (Path source_path) n))))"
proof -
  let ?s = source_path and ?d = dest_path
  let ?fs1 = "if fs ?d = None then fs(?d \<mapsto> Directory []) else fs"
  let ?names = "remdups (map fst entries)"
  let ?fs2 = "fst (move_loop ?fs1 ?s ?d ?names)"
  let ?out = "snd (move_loop ?fs1 ?s ?d ?names)"
  have run: "move_chunks fs ?s ?d = (Inr (), move_loop ?fs1 ?s ?d ?names)"
    by (rule move_chunks_unfold [OF assms])
  have "?d \<in> dom ?fs1" by auto
  then have "?d \<in> dom ?fs2" by (rule move_loop_keeps_roots)
  then have there: "path_exists ?fs2 (Path ?d)" by (simp only: path_exists_root)
  have messages: "map subject ?out = ?names"
    by (rule move_loop_subjects)
  have distinct:
    "isdir ?fs2 (Path ?d) = (\<not> isfile fs (Path ?d)) \<and>
     (\<forall>n\<in>set (map fst entries).
        (\<not> isfile fs (Join (Path ?s) n) \<longrightarrow>
           NotAFile n \<in> set ?out \<and>
           resolve ?fs2 (Join (Path ?s) n) = resolve fs (Join (Path ?s) n)) \<and>
        (isfile fs (Join (Path ?s) n) \<and> \<not> isfile fs (Path ?d) \<and>
         \<not> path_exists fs (Join (Join (Path ?d) n) n) \<longrightarrow>
           Moved n \<in> set ?out \<and> relocated fs ?fs2 ?s ?d n) \<and>
        (isfile fs (Join (Path ?s) n) \<and>
         (isfile fs (Path ?d) \<or> path_exists fs (Join (Join (Path ?d) n) n)) \<longrightarrow>
           (\<exists>e. MoveError n e \<in> set ?out) \<and>
           resolve ?fs2 (Join (Path ?s) n) = resolve fs (Join (Path ?s) n)))"
    if different: "?s \<noteq> ?d"
  proof -
    have src: "resolve ?fs1 (Join (Path ?s) n) = resolve fs (Join (Path ?s) n)" for n
      using different by simp
    have dst: "resolve ?fs1 (Join (Path ?d) n) = resolve fs (Join (Path ?d) n)" for n
      by simp
    have dir: "isdir ?fs1 (Path ?d) = (\<not> isfile fs (Path ?d))"
      by (auto simp: isdir_def isfile_def split: option.splits node.splits)
    have regular: "isfile ?fs1 (Join (Path ?s) n) = isfile fs (Join (Path ?s) n)" for n
      by (rule isfile_cong [OF src])
    have clash: "path_exists ?fs1 (Join (Join (Path ?d) n) n) =
        path_exists fs (Join (Join (Path ?d) n) n)" for n
      by (rule path_exists_cong [OF resolve_Join_cong [OF dst]])
    have rel: "relocated fs ?fs2 ?s ?d n" if "relocated ?fs1 ?fs2 ?s ?d n" for n
      using that src dst by (rule relocated_before)
    have each:
      "(\<not> isfile fs (Join (Path ?s) n) \<longrightarrow>
          NotAFile n \<in> set ?out \<and>
          resolve ?fs2 (Join (Path ?s) n) = resolve fs (Join (Path ?s) n)) \<and>
       (isfile fs (Join (Path ?s) n) \<and> \<not> isfile fs (Path ?d) \<and>
        \<not> path_exists fs (Join (Join (Path ?d) n) n) \<longrightarrow>
          Moved n \<in> set ?out \<and> relocated fs ?fs2 ?s ?d n) \<and>
       (isfile fs (Join (Path ?s) n) \<and>
        (isfile fs (Path ?d) \<or> path_exists fs (Join (Join (Path ?d) n) n)) \<longrightarrow>
          (\<exists>e. MoveError n e \<in> set ?out) \<and>
          resolve ?fs2 (Join (Path ?s) n) = resolve fs (Join (Path ?s) n))"
      if "n \<in> set (map fst entries)" for n
    proof -
      from that have "n \<in> set ?names" by simp
      from move_loop_outcome [OF different distinct_remdups this, of ?fs1]
      show ?thesis
        unfolding regular dir clash src
        using rel [of n] by auto
    qed
    have "isdir ?fs2 (Path ?d) = (\<not> isfile fs (Path ?d))"
      using move_loop_isdir [OF different, of ?fs1 ?names] dir by simp
    with each show ?thesis by blast
  qed
  from there messages distinct show ?thesis
    unfolding run by simp
qed

lemma relocation_example_run:
  "snd (snd (move_chunks relocation_example ''/tmp/videos/1'' ''/media/uploads/1'')) =
     [MoveError ''0.chunk'' ShutilError, Moved ''1.chunk'', NotAFile ''parts'']"
  by (simp add: move_chunks_def relocation_example_def path_exists_def listdir_def
      move_file_def isfile_def shutil_move_def isdir_def)

theorem move_chunks_best_effort_witness:
  "fst (move_chunks relocation_example ''/tmp/videos/1'' ''/media/uploads/1'') = Inr () \<and>
   Moved ''1.chunk'' \<in>
     set (snd (snd (move_chunks relocation_example ''/tmp/videos/1'' ''/media/uploads/1''))) \<and>
   resolve (fst (snd (move_chunks relocation_example ''/tmp/videos/1'' ''/media/uploads/1'')))
     (Join (Path ''/media/uploads/1'') ''1.chunk'') = Some (RegularFile [3]) \<and>
   resolve (fst (snd (move_chunks relocation_example ''/tmp/videos/1'' ''/media/uploads/1'')))
     (Join (Path ''/tmp/videos/1'') ''1.chunk'') = None \<and>
   resolve (fst (snd (move_chunks relocation_example ''/tmp/videos/1'' ''/media/uploads/1'')))
     (Join (Path ''/tmp/videos/1'') ''0.chunk'') = Some (RegularFile [1, 2]) \<and>
   NotAFile ''parts'' \<in>
     set (snd (snd (move_chunks relocation_example ''/tmp/videos/1'' ''/media/uploads/1'')))"
proof -
  let ?s = "''/tmp/videos/1''" and ?d = "''/media/uploads/1''"
  let ?entries = "[(''0.chunk'', RegularFile [1, 2]), (''1.chunk'', RegularFile [3]),
    (''parts'', Directory [])]"
  have source: "resolve relocation_example (Path ?s) = Some (Directory ?entries)"
    by (simp add: relocation_example_def)
  have different: "?s \<noteq> ?d" by simp
  note all = move_chunks_best_effort [OF source, of ?d]
  have names: "''0.chunk'' \<in> set (map fst ?entries)" "''1.chunk'' \<in> set (map fst ?entries)"
    "''parts'' \<in> set (map fst ?entries)"
    by simp_all
  have first: "isfile relocation_example (Join (Path ?s) ''0.chunk'')"
    "path_exists relocation_example (Join (Join (Path ?d) ''0.chunk'') ''0.chunk'')"
    "resolve relocation_example (Join (Path ?s) ''0.chunk'') = Some (RegularFile [1, 2])"
    by (simp_all add: relocation_example_def isfile_def path_exists_def)
  have second: "isfile relocation_example (Join (Path ?s) ''1.chunk'')"
    "\<not> isfile relocation_example (Path ?d)"
    "\<not> path_exists relocation_example (Join (Join (Path ?d) ''1.chunk'') ''1.chunk'')"
    "\<not> isdir relocation_example (Join (Path ?d) ''1.chunk'')"
    "resolve relocation_example (Join (Path ?s) ''1.chunk'') = Some (RegularFile [3])"
    by (simp_all add: relocation_example_def isfile_def path_exists_def isdir_def)
  have third: "\<not> isfile relocation_example (Join (Path ?s) ''parts'')"
    by (simp add: relocation_example_def isfile_def)
  from all have "fst (move_chunks relocation_example ?s ?d) = Inr ()" by blast
  moreover from all different names(2) second
  have "Moved ''1.chunk'' \<in> set (snd (snd (move_chunks relocation_example ?s ?d))) \<and>
      relocated relocation_example (fst (snd (move_chunks relocation_example ?s ?d)))
        ?s ?d ''1.chunk''"
    by blast
  moreover from all different names(1) first
  have "resolve (fst (snd (move_chunks relocation_example ?s ?d))) (Join (Path ?s) ''0.chunk'') =
      Some (RegularFile [1, 2])"
    by (metis (no_types, lifting))
  moreover from all different names(3) third
  have "NotAFile ''parts'' \<in> set (snd (snd (move_chunks relocation_example ?s ?d)))"
    by blast
  ultimately show ?thesis
    using second(4,5) by (simp add: relocated_def del: resolve.simps)
qed

subsection \<open>Promotion to external storage\<close>

lemma upload_chunks_to_external_storage_run:
  assumes "videos st vid = Some video"
  shows "upload_chunks_to_external_storage st vid =
    (fst (move_chunks (disk st) (get_chunk_directory vid) (external_directory vid)),
     st\<lparr>disk := fst (snd (move_chunks (disk st) (get_chunk_directory vid)
                           (external_directory vid)))\<rparr>,
     snd (snd (move_chunks (disk st) (get_chunk_directory vid) (external_directory vid))))"
  using assms
  by (simp add: upload_chunks_to_external_storage_def find_video_def split_beta Let_def)

text \<open>
  C4, as the code has it. Promotion is two operations. For a video with a record,
  \<open>register_processed_video_path\<close> raises \<open>VideoMediaInvalidStatusException\<close> and returns
  the state unchanged when the status is not \<open>PROCESS_STARTED\<close>; when it is, it saves the
  record with the path its caller gives and the status \<open>PROCESS_FINISHED\<close>, and moves no
  file. \<open>upload_chunks_to_external_storage\<close> is \<open>move_chunks\<close> from the default chunk
  directory to the upload directory of the video; it never reads the record, so its
  outcome and the files it leaves are the same whatever the table of records holds, and
  it leaves the records and the videos as they are.
\<close>

theorem promotion_operations:
  assumes "videos st vid = Some video"
    and "video_media_of (media st) vid = Some m"
  shows
    "(status m \<noteq> PROCESS_STARTED \<longrightarrow>
        register_processed_video_path st vid vpath =
          (Inl (VideoMediaInvalidStatusException ''Processing must be started to finish it.''),
           st)) \<and>
     (status m = PROCESS_STARTED \<longrightarrow>
        register_processed_video_path st vid vpath =
          (Inr (), st\<lparr>media := save_media (media st)
                     (m\<lparr>video_path := vpath, status := PROCESS_FINISHED\<rparr>)\<rparr>) \<and>
        video_media_of (media (snd (register_processed_video_path st vid vpath))) vid =
          Some (m\<lparr>video_path := vpath, status := PROCESS_FINISHED\<rparr>) \<and>
        disk (snd (register_processed_video_path st vid vpath)) = disk st) \<and>
     fst (upload_chunks_to_external_storage st vid) =
       fst (move_chunks (disk st) (get_chunk_directory vid) (external_directory vid)) \<and>
     disk (fst (snd (upload_chunks_to_external_storage st vid))) =
       fst (snd (move_chunks (disk st) (get_chunk_directory vid) (external_directory vid))) \<and>
     media (fst (snd (upload_chunks_to_external_storage st vid))) = media st \<and>
     videos (fst (snd (upload_chunks_to_external_storage st vid))) = videos st \<and>
     (\<forall>rows.
        fst (upload_chunks_to_external_storage (st\<lparr>media := rows\<rparr>) vid) =
          fst (upload_chunks_to_external_storage st vid) \<and>
        disk (fst (snd (upload_chunks_to_external_storage (st\<lparr>media := rows\<rparr>) vid))) =
          disk (fst (snd (upload_chunks_to_external_storage st vid))))"
proof (intro conjI impI allI)
  assume "status m \<noteq> PROCESS_STARTED"
  with assms show "register_processed_video_path st vid vpath =
      (Inl (VideoMediaInvalidStatusException ''Processing must be started to finish it.''), st)"
    by (simp add: register_processed_video_path_def find_video_def)
next
  assume started: "status m = PROCESS_STARTED"
  let ?m' = "m\<lparr>video_path := vpath, status := PROCESS_FINISHED\<rparr>"
  from assms started show result: "register_processed_video_path st vid vpath =
      (Inr (), st\<lparr>media := save_media (media st) ?m'\<rparr>)"
    by (simp add: register_processed_video_path_def find_video_def)
  from assms(2) have "video_id ?m' = vid" by (simp add: video_media_of_Some_id)
  with assms(2) have "video_media_of (save_media (media st) ?m') vid = Some ?m'"
    by (rule video_media_of_save_same)
  with result
  show "video_media_of (media (snd (register_processed_video_path st vid vpath))) vid = Some ?m'"
    by simp
  from result show "disk (snd (register_processed_video_path st vid vpath)) = disk st"
    by simp
next
  note run = upload_chunks_to_external_storage_run [OF assms(1)]
  show "fst (upload_chunks_to_external_storage st vid) =
      fst (move_chunks (disk st) (get_chunk_directory vid) (external_directory vid))"
    by (simp add: run)
  show "disk (fst (snd (upload_chunks_to_external_storage st vid))) =
      fst (snd (move_chunks (disk st) (get_chunk_directory vid) (external_directory vid)))"
    by (simp add: run)
  show "media (fst (snd (upload_chunks_to_external_storage st vid))) = media st"
    by (simp add: run)
  show "videos (fst (snd (upload_chunks_to_external_storage st vid))) = videos st"
    by (simp add: run)
  fix rows
  have other: "videos (st\<lparr>media := rows\<rparr>) vid = Some video"
    using assms(1) by simp
  show "fst (upload_chunks_to_external_storage (st\<lparr>media := rows\<rparr>) vid) =
      fst (upload_chunks_to_external_storage st vid)"
    by (simp add: run upload_chunks_to_external_storage_run [OF other])
  show "disk (fst (snd (upload_chunks_to_external_storage (st\<lparr>media := rows\<rparr>) vid))) =
      disk (fst (snd (upload_chunks_to_external_storage st vid)))"
    by (simp add: run upload_chunks_to_external_storage_run [OF other])
qed

theorem promotion_operations_witness:
  "register_processed_video_path
     (state_of [media1 UPLOADED_STARTED ''/tmp/videos/1''] two_chunks) 1 ''/media/final/1.mp4'' =
     (Inl (VideoMediaInvalidStatusException ''Processing must be started to finish it.''),
      state_of [media1 UPLOADED_STARTED ''/tmp/videos/1''] two_chunks) \<and>
   video_media_of (media (snd (register_processed_video_path
     (state_of [media1 PROCESS_STARTED ''/tmp/videos/1''] two_chunks) 1 ''/media/final/1.mp4''))) 1 =
     Some (media1 PROCESS_FINISHED ''/media/final/1.mp4'') \<and>
   disk (snd (register_processed_video_path
     (state_of [media1 PROCESS_STARTED ''/tmp/videos/1''] two_chunks) 1 ''/media/final/1.mp4'')) =
     two_chunks"
proof -
  let ?open = "state_of [media1 UPLOADED_STARTED ''/tmp/videos/1''] two_chunks"
  let ?busy = "state_of [media1 PROCESS_STARTED ''/tmp/videos/1''] two_chunks"
  have v: "videos ?open 1 = Some video1" "videos ?busy 1 = Some video1"
    by (simp_all add: state_of_def)
  have "open": "video_media_of (media ?open) 1 = Some (media1 UPLOADED_STARTED ''/tmp/videos/1'')"
    "status (media1 UPLOADED_STARTED ''/tmp/videos/1'') \<noteq> PROCESS_STARTED"
    by (simp_all add: state_of_def video_media_of_def media1_def)
  have busy: "video_media_of (media ?busy) 1 = Some (media1 PROCESS_STARTED ''/tmp/videos/1'')"
    "status (media1 PROCESS_STARTED ''/tmp/videos/1'') = PROCESS_STARTED"
    by (simp_all add: state_of_def video_media_of_def media1_def)
  have "register_processed_video_path ?open 1 ''/media/final/1.mp4'' =
      (Inl (VideoMediaInvalidStatusException ''Processing must be started to finish it.''),
       ?open)"
    using promotion_operations [OF v(1) "open"(1), of "''/media/final/1.mp4''"] "open"(2)
    by blast
  moreover have "video_media_of (media (snd (register_processed_video_path ?busy 1
      ''/media/final/1.mp4''))) 1 =
      Some ((media1 PROCESS_STARTED ''/tmp/videos/1'')
        \<lparr>video_path := ''/media/final/1.mp4'', status := PROCESS_FINISHED\<rparr>) \<and>
      disk (snd (register_processed_video_path ?busy 1 ''/media/final/1.mp4'')) = disk ?busy"
    using promotion_operations [OF v(2) busy(1), of "''/media/final/1.mp4''"] busy(2)
    by blast
  ultimately show ?thesis
    by (simp add: media1_def state_of_def)
qed

text \<open>
  C4, as the claim has it, fails: with the record in \<open>UPLOADED_STARTED\<close> the relocation
  succeeds and moves the chunks to the upload directory.
\<close>

theorem relocation_ignores_status_counterexample:
  "status_of (state_of [media1 UPLOADED_STARTED ''/tmp/videos/1''] two_chunks) 1 =
     Some UPLOADED_STARTED \<and>
   fst (upload_chunks_to_external_storage
     (state_of [media1 UPLOADED_STARTED ''/tmp/videos/1''] two_chunks) 1) = Inr () \<and>
   snd (snd (upload_chunks_to_external_storage
     (state_of [media1 UPLOADED_STARTED ''/tmp/videos/1''] two_chunks) 1)) =
     [Moved ''0.chunk'', Moved ''1.chunk''] \<and>
   resolve (disk (fst (snd (upload_chunks_to_external_storage
     (state_of [media1 UPLOADED_STARTED ''/tmp/videos/1''] two_chunks) 1))))
     (Join (Path ''/media/uploads/1'') ''0.chunk'') = Some (RegularFile [1, 2]) \<and>
   resolve (disk (fst (snd (upload_chunks_to_external_storage
     (state_of [media1 UPLOADED_STARTED ''/tmp/videos/1''] two_chunks) 1))))
     (Join (Path ''/tmp/videos/1'') ''0.chunk'') = None"
  by (simp add: upload_chunks_to_external_storage_def find_video_def state_of_def
      status_of_def video_media_of_def media1_def get_chunk_directory_1 external_directory_1
      move_chunks_def two_chunks_def path_exists_def makedirs_def listdir_def
      move_file_def isfile_def shutil_move_def isdir_def Let_def)

end
